theory Spec2Isabelle
  imports Main "HOL-Library.Word"
begin

section \<open>JavaScript values\<close>

text \<open>
  A JavaScript string is a sequence of UTF-16 code units, and \<open>length\<close> counts
  code units. ASCII literals of the source are written with \<open>js\<close>. A request body
  is a sequence of bytes.
\<close>

type_synonym code_unit = "16 word"
type_synonym jsstring = "code_unit list"
type_synonym byte = "8 word"

definition js :: "string \<Rightarrow> jsstring" where
  "js s = map (\<lambda>c. of_nat (of_char c)) s"

text \<open>
  The values \<open>JSON.parse\<close> produces and \<open>res.json\<close> sends. An object is the list of
  its properties in insertion order. Numbers are modelled on the integers: the numbers
  the program itself produces are byte sizes and string lengths.
\<close>

datatype json =
    JNull
  | JBool bool
  | JNum int
  | JStr jsstring
  | JArr "json list"
  | JObj "(jsstring \<times> json) list"

text \<open>\<open>String.prototype.includes\<close>: the argument occurs as a contiguous run.\<close>

fun starts_with :: "jsstring \<Rightarrow> jsstring \<Rightarrow> bool" where
  "starts_with s [] = True"
| "starts_with [] (p # ps) = False"
| "starts_with (c # cs) (p # ps) = (c = p \<and> starts_with cs ps)"

fun str_includes :: "jsstring \<Rightarrow> jsstring \<Rightarrow> bool" where
  "str_includes [] sub = (sub = [])"
| "str_includes (c # cs) sub = (starts_with (c # cs) sub \<or> str_includes cs sub)"

text \<open>
  \<open>String.prototype.trim\<close> removes WhiteSpace and LineTerminator code units from
  both ends.
\<close>

definition is_white :: "code_unit \<Rightarrow> bool" where
  "is_white c =
     (c = 0x09 \<or> c = 0x0A \<or> c = 0x0B \<or> c = 0x0C \<or> c = 0x0D \<or> c = 0x20 \<or>
      c = 0xA0 \<or> c = 0x1680 \<or> (0x2000 \<le> c \<and> c \<le> 0x200A) \<or> c = 0x2028 \<or>
      c = 0x2029 \<or> c = 0x202F \<or> c = 0x205F \<or> c = 0x3000 \<or> c = 0xFEFF)"

definition trim :: "jsstring \<Rightarrow> jsstring" where
  "trim s = rev (dropWhile is_white (rev (dropWhile is_white s)))"

text \<open>Decimal digits of a natural number, as \<open>String(n)\<close> prints an array index.\<close>

definition digit_unit :: "nat \<Rightarrow> code_unit" where
  "digit_unit d = of_nat (48 + d)"

fun decimal :: "nat \<Rightarrow> jsstring" where
  "decimal n = (if n < 10 then [digit_unit n] else decimal (n div 10) @ [digit_unit (n mod 10)])"

declare decimal.simps [simp del]

text \<open>
  Object spread \<open>{...v}\<close> copies the own enumerable properties of \<open>v\<close>: the
  properties of an object, the indexed elements of an array, the indexed code units of
  a string, and nothing for \<open>null\<close>, a boolean or a number.
\<close>

fun spread :: "json \<Rightarrow> (jsstring \<times> json) list" where
  "spread (JObj kvs) = kvs"
| "spread (JArr xs) = zip (map decimal [0..<length xs]) xs"
| "spread (JStr s) = zip (map decimal [0..<length s]) (map (\<lambda>c. JStr [c]) s)"
| "spread JNull = []"
| "spread (JBool b) = []"
| "spread (JNum n) = []"

text \<open>
  Defining a property: an existing key keeps its place and takes the new value, a new
  key is added at the end.
\<close>

fun obj_set :: "(jsstring \<times> json) list \<Rightarrow> jsstring \<Rightarrow> json \<Rightarrow> (jsstring \<times> json) list" where
  "obj_set [] k v = [(k, v)]"
| "obj_set ((k', v') # kvs) k v =
     (if k' = k then (k, v) # kvs else (k', v') # obj_set kvs k v)"

text \<open>Property access \<open>v.k\<close> on a parsed value: \<open>None\<close> is \<open>undefined\<close>.\<close>

fun get_prop :: "json \<Rightarrow> jsstring \<Rightarrow> json option" where
  "get_prop (JObj kvs) k = map_of kvs k"
| "get_prop v k = None"

section \<open>JSON texts\<close>

text \<open>
  The two built-in functions the program calls, after their definitions in the language
  standard: \<open>JSON.stringify(value, null, 2)\<close>, which the component uses to export a
  result, and \<open>JSON.parse\<close>, which the service applies to the reply of the model.
\<close>

subsection \<open>JSON.stringify with an indentation of two spaces\<close>

text \<open>
  \<open>QuoteJSONString\<close>: a surrogate pair is copied, every other code unit is quoted on
  its own, and a number is printed in decimal.
\<close>

definition hex_digit :: "nat \<Rightarrow> code_unit" where
  "hex_digit d = (if d < 10 then of_nat (48 + d) else of_nat (87 + d))"

definition unicode_escape :: "code_unit \<Rightarrow> jsstring" where
  "unicode_escape c =
     [0x5C, 0x75,
      hex_digit (unat c div 4096 mod 16), hex_digit (unat c div 256 mod 16),
      hex_digit (unat c div 16 mod 16), hex_digit (unat c mod 16)]"

definition is_leading_surrogate :: "code_unit \<Rightarrow> bool" where
  "is_leading_surrogate c = (0xD800 \<le> c \<and> c \<le> 0xDBFF)"

definition is_trailing_surrogate :: "code_unit \<Rightarrow> bool" where
  "is_trailing_surrogate c = (0xDC00 \<le> c \<and> c \<le> 0xDFFF)"

text \<open>
  The text of one code unit that is not part of a surrogate pair: the short escapes,
  \<open>\\uXXXX\<close> for the other control characters and for a lone surrogate, the unit
  itself otherwise.
\<close>

definition quote_unit :: "code_unit \<Rightarrow> jsstring" where
  "quote_unit c =
     (if c = 0x08 then [0x5C, 0x62]
      else if c = 0x09 then [0x5C, 0x74]
      else if c = 0x0A then [0x5C, 0x6E]
      else if c = 0x0C then [0x5C, 0x66]
      else if c = 0x0D then [0x5C, 0x72]
      else if c = 0x22 then [0x5C, 0x22]
      else if c = 0x5C then [0x5C, 0x5C]
      else if c < 0x20 \<or> is_leading_surrogate c \<or> is_trailing_surrogate c then unicode_escape c
      else [c])"

fun quote_units :: "jsstring \<Rightarrow> jsstring" where
  "quote_units [] = []"
| "quote_units [c] = quote_unit c"
| "quote_units (c # d # cs) =
     (if is_leading_surrogate c \<and> is_trailing_surrogate d then c # d # quote_units cs
      else quote_unit c @ quote_units (d # cs))"

definition QuoteJSONString :: "jsstring \<Rightarrow> jsstring" where
  "QuoteJSONString s = 0x22 # quote_units s @ [0x22]"

definition number_to_string :: "int \<Rightarrow> jsstring" where
  "number_to_string n = (if n < 0 then 0x2D # decimal (nat (- n)) else decimal (nat n))"

fun join :: "jsstring \<Rightarrow> jsstring list \<Rightarrow> jsstring" where
  "join sep [] = []"
| "join sep [x] = x"
| "join sep (x # y # ys) = x @ sep @ join sep (y # ys)"

definition indentation :: "nat \<Rightarrow> jsstring" where
  "indentation depth = replicate (2 * depth) 0x20"

definition separator :: "nat \<Rightarrow> jsstring" where
  "separator depth = [0x2C, 0x0A] @ indentation depth"

text \<open>
  \<open>SerializeJSONProperty\<close> at a nesting depth: an empty array or object is
  \<open>[]\<close> or \<open>{}\<close>; otherwise each element or member is on a line of its own, one
  level deeper, and the closing bracket is on a line at the current level.
\<close>

fun serialize :: "nat \<Rightarrow> json \<Rightarrow> jsstring" where
  "serialize depth JNull = js ''null''"
| "serialize depth (JBool b) = (if b then js ''true'' else js ''false'')"
| "serialize depth (JNum n) = number_to_string n"
| "serialize depth (JStr s) = QuoteJSONString s"
| "serialize depth (JArr xs) =
     (if xs = [] then js ''[]''
      else [0x5B, 0x0A] @ indentation (Suc depth) @
           join (separator (Suc depth)) (map (serialize (Suc depth)) xs) @
           [0x0A] @ indentation depth @ [0x5D])"
| "serialize depth (JObj kvs) =
     (if kvs = [] then js ''{}''
      else [0x7B, 0x0A] @ indentation (Suc depth) @
           join (separator (Suc depth))
             (map (\<lambda>(k, v). QuoteJSONString k @ [0x3A, 0x20] @ serialize (Suc depth) v) kvs) @
           [0x0A] @ indentation depth @ [0x7D])"

definition JSON_stringify :: "json \<Rightarrow> jsstring" where
  "JSON_stringify v = serialize 0 v"

subsection \<open>JSON.parse\<close>

text \<open>
  The result of parsing: a value, the \<open>SyntaxError\<close> that \<open>JSON.parse\<close> throws,
  or \<open>Unmodelled\<close> for a text with a number written with a fraction or an exponent,
  whose value the integers of \<open>JNum\<close> do not hold. White space is the four characters
  of the JSON grammar.
\<close>

datatype 'a parsed = Parsed 'a | SyntaxError | Unmodelled

definition is_json_space :: "code_unit \<Rightarrow> bool" where
  "is_json_space c = (c = 0x20 \<or> c = 0x09 \<or> c = 0x0A \<or> c = 0x0D)"

definition skip_space :: "jsstring \<Rightarrow> jsstring" where
  "skip_space s = dropWhile is_json_space s"

definition hex_value :: "code_unit \<Rightarrow> nat option" where
  "hex_value c =
     (if 0x30 \<le> c \<and> c \<le> 0x39 then Some (unat c - 48)
      else if 0x61 \<le> c \<and> c \<le> 0x66 then Some (unat c - 87)
      else if 0x41 \<le> c \<and> c \<le> 0x46 then Some (unat c - 55)
      else None)"

definition hex4 :: "code_unit \<Rightarrow> code_unit \<Rightarrow> code_unit \<Rightarrow> code_unit \<Rightarrow> code_unit option" where
  "hex4 h1 h2 h3 h4 = (case (hex_value h1, hex_value h2, hex_value h3, hex_value h4) of
       (Some a, Some b, Some c, Some d) \<Rightarrow> Some (of_nat (4096 * a + 256 * b + 16 * c + d))
     | _ \<Rightarrow> None)"

definition unescape :: "code_unit \<Rightarrow> code_unit option" where
  "unescape e =
     (if e = 0x22 then Some 0x22
      else if e = 0x5C then Some 0x5C
      else if e = 0x2F then Some 0x2F
      else if e = 0x62 then Some 0x08
      else if e = 0x66 then Some 0x0C
      else if e = 0x6E then Some 0x0A
      else if e = 0x72 then Some 0x0D
      else if e = 0x74 then Some 0x09
      else None)"

definition add_unit :: "code_unit \<Rightarrow> (jsstring \<times> jsstring) parsed \<Rightarrow> (jsstring \<times> jsstring) parsed" where
  "add_unit c p = (case p of Parsed (s, rest) \<Rightarrow> Parsed (c # s, rest) | SyntaxError \<Rightarrow> SyntaxError
     | Unmodelled \<Rightarrow> Unmodelled)"

text \<open>The characters of a string after its opening quote, up to the closing quote.\<close>

fun parse_chars :: "jsstring \<Rightarrow> (jsstring \<times> jsstring) parsed" where
  "parse_chars [] = SyntaxError"
| "parse_chars (c # cs) =
     (if c = 0x22 then Parsed ([], cs)
      else if c = 0x5C then
        (case cs of
           [] \<Rightarrow> SyntaxError
         | e # es \<Rightarrow>
             if e = 0x75 then
               (case es of
                  h1 # h2 # h3 # h4 # r \<Rightarrow>
                    (case hex4 h1 h2 h3 h4 of
                       None \<Rightarrow> SyntaxError
                     | Some u \<Rightarrow> add_unit u (parse_chars r))
                | _ \<Rightarrow> SyntaxError)
             else
               (case unescape e of
                  None \<Rightarrow> SyntaxError
                | Some u \<Rightarrow> add_unit u (parse_chars es)))
      else if c < 0x20 then SyntaxError
      else add_unit c (parse_chars cs))"

definition is_digit :: "code_unit \<Rightarrow> bool" where
  "is_digit c = (0x30 \<le> c \<and> c \<le> 0x39)"

definition digits_value :: "jsstring \<Rightarrow> nat" where
  "digits_value ds = foldl (\<lambda>a d. 10 * a + (unat d - 48)) 0 ds"

text \<open>
  A number: an optional minus sign, then \<open>0\<close> or a digit sequence without a leading
  zero. A fraction or an exponent after it denotes a number outside the integers.
\<close>

definition parse_unsigned :: "jsstring \<Rightarrow> (nat \<times> jsstring) parsed" where
  "parse_unsigned s = (case s of
       [] \<Rightarrow> SyntaxError
     | c # cs \<Rightarrow>
         if \<not> is_digit c then SyntaxError
         else (let (ds, rest) = (if c = 0x30 then ([c], cs)
                                 else (takeWhile is_digit s, dropWhile is_digit s))
               in (case rest of
                     [] \<Rightarrow> Parsed (digits_value ds, rest)
                   | r # rs \<Rightarrow>
                       if r = 0x2E \<or> r = 0x65 \<or> r = 0x45 then Unmodelled
                       else Parsed (digits_value ds, rest))))"

definition parse_number :: "jsstring \<Rightarrow> (json \<times> jsstring) parsed" where
  "parse_number s = (case s of
       [] \<Rightarrow> SyntaxError
     | c # cs \<Rightarrow>
         if c = 0x2D then
           (case parse_unsigned cs of
              Parsed (n, rest) \<Rightarrow> Parsed (JNum (- int n), rest)
            | SyntaxError \<Rightarrow> SyntaxError
            | Unmodelled \<Rightarrow> Unmodelled)
         else
           (case parse_unsigned s of
              Parsed (n, rest) \<Rightarrow> Parsed (JNum (int n), rest)
            | SyntaxError \<Rightarrow> SyntaxError
            | Unmodelled \<Rightarrow> Unmodelled))"

text \<open>
  Values, the elements of an array after the first bracket and the members of an object
  after the first brace. The first argument bounds the depth of the calls.
\<close>

fun parse_value :: "nat \<Rightarrow> jsstring \<Rightarrow> (json \<times> jsstring) parsed"
  and parse_elements :: "nat \<Rightarrow> jsstring \<Rightarrow> (json list \<times> jsstring) parsed"
  and parse_members :: "nat \<Rightarrow> jsstring \<Rightarrow> ((jsstring \<times> json) list \<times> jsstring) parsed"
where
  "parse_value 0 s = SyntaxError"
| "parse_value (Suc n) s = (case s of
       [] \<Rightarrow> SyntaxError
     | c # cs \<Rightarrow>
         if c = 0x7B then
           (case skip_space cs of
              [] \<Rightarrow> SyntaxError
            | d # ds \<Rightarrow>
                if d = 0x7D then Parsed (JObj [], ds)
                else (case parse_members n (d # ds) of
                        Parsed (kvs, rest) \<Rightarrow>
                          Parsed (JObj (foldl (\<lambda>obj (k, v). obj_set obj k v) [] kvs), rest)
                      | SyntaxError \<Rightarrow> SyntaxError
                      | Unmodelled \<Rightarrow> Unmodelled))
         else if c = 0x5B then
           (case skip_space cs of
              [] \<Rightarrow> SyntaxError
            | d # ds \<Rightarrow>
                if d = 0x5D then Parsed (JArr [], ds)
                else (case parse_elements n (d # ds) of
                        Parsed (xs, rest) \<Rightarrow> Parsed (JArr xs, rest)
                      | SyntaxError \<Rightarrow> SyntaxError
                      | Unmodelled \<Rightarrow> Unmodelled))
         else if c = 0x22 then
           (case parse_chars cs of
              Parsed (str, rest) \<Rightarrow> Parsed (JStr str, rest)
            | SyntaxError \<Rightarrow> SyntaxError
            | Unmodelled \<Rightarrow> Unmodelled)
         else if starts_with s (js ''true'') then Parsed (JBool True, drop 4 s)
         else if starts_with s (js ''false'') then Parsed (JBool False, drop 5 s)
         else if starts_with s (js ''null'') then Parsed (JNull, drop 4 s)
         else parse_number s)"
| "parse_elements 0 s = SyntaxError"
| "parse_elements (Suc n) s = (case parse_value n s of
       Parsed (x, rest) \<Rightarrow>
         (case skip_space rest of
            [] \<Rightarrow> SyntaxError
          | d # ds \<Rightarrow>
              if d = 0x5D then Parsed ([x], ds)
              else if d = 0x2C then
                (case parse_elements n (skip_space ds) of
                   Parsed (xs, rest') \<Rightarrow> Parsed (x # xs, rest')
                 | SyntaxError \<Rightarrow> SyntaxError
                 | Unmodelled \<Rightarrow> Unmodelled)
              else SyntaxError)
     | SyntaxError \<Rightarrow> SyntaxError
     | Unmodelled \<Rightarrow> Unmodelled)"
| "parse_members 0 s = SyntaxError"
| "parse_members (Suc n) s = (case s of
       [] \<Rightarrow> SyntaxError
     | q # cs \<Rightarrow>
         if q \<noteq> 0x22 then SyntaxError
         else (case parse_chars cs of
            Parsed (k, rest) \<Rightarrow>
              (case skip_space rest of
                 [] \<Rightarrow> SyntaxError
               | colon # rest1 \<Rightarrow>
                   if colon \<noteq> 0x3A then SyntaxError
                   else (case parse_value n (skip_space rest1) of
                      Parsed (v, rest2) \<Rightarrow>
                        (case skip_space rest2 of
                           [] \<Rightarrow> SyntaxError
                         | d # ds \<Rightarrow>
                             if d = 0x7D then Parsed ([(k, v)], ds)
                             else if d = 0x2C then
                               (case parse_members n (skip_space ds) of
                                  Parsed (kvs, rest') \<Rightarrow> Parsed ((k, v) # kvs, rest')
                                | SyntaxError \<Rightarrow> SyntaxError
                                | Unmodelled \<Rightarrow> Unmodelled)
                             else SyntaxError)
                    | SyntaxError \<Rightarrow> SyntaxError
                    | Unmodelled \<Rightarrow> Unmodelled))
          | SyntaxError \<Rightarrow> SyntaxError
          | Unmodelled \<Rightarrow> Unmodelled))"

text \<open>
  The whole text is one value between white space. The depth allowed is twice the
  length of the text and two; that it is enough for every text \<open>JSON_stringify\<close>
  writes is part of the round trip proved below.
\<close>

definition JSON_parse :: "jsstring \<Rightarrow> json parsed" where
  "JSON_parse text = (case parse_value (2 * length text + 2) (skip_space text) of
       Parsed (v, rest) \<Rightarrow> if skip_space rest = [] then Parsed v else SyntaxError
     | SyntaxError \<Rightarrow> SyntaxError
     | Unmodelled \<Rightarrow> Unmodelled)"

subsection \<open>Notions for the round trip\<close>

text \<open>
  What may follow a number in a text, the first code unit of the text of a value, the text
  of one member of an object, values whose text parses back to them wherever it stands,
  and values all of whose objects have distinct keys.
\<close>

definition number_end :: "jsstring \<Rightarrow> bool" where
  "number_end rest = (case rest of
       [] \<Rightarrow> True
     | r # rs \<Rightarrow> \<not> is_digit r \<and> r \<noteq> 0x2E \<and> r \<noteq> 0x65 \<and> r \<noteq> 0x45)"

definition value_start :: "code_unit \<Rightarrow> bool" where
  "value_start c =
     (c = 0x7B \<or> c = 0x5B \<or> c = 0x22 \<or> c = 0x74 \<or> c = 0x66 \<or> c = 0x6E \<or> c = 0x2D \<or> is_digit c)"

definition roundtrips :: "json \<Rightarrow> bool" where
  "roundtrips v = (\<forall>n d rest. size v < n \<longrightarrow> number_end rest \<longrightarrow>
     parse_value n (serialize d v @ rest) = Parsed (v, rest))"

definition member_text :: "nat \<Rightarrow> jsstring \<times> json \<Rightarrow> jsstring" where
  "member_text d kv = (case kv of (k, v) \<Rightarrow> QuoteJSONString k @ [0x3A, 0x20] @ serialize d v)"

fun distinct_keys :: "json \<Rightarrow> bool" where
  "distinct_keys (JObj kvs) = (distinct (map fst kvs) \<and> list_all (\<lambda>(k, v). distinct_keys v) kvs)"
| "distinct_keys (JArr xs) = list_all distinct_keys xs"
| "distinct_keys v = True"

section \<open>The AnalysisResult interface\<close>

text \<open>
  The interface \<open>AnalysisResult\<close> of the upload component, as a predicate on values:
  every declared property is present with its declared type.
\<close>

fun is_string :: "json option \<Rightarrow> bool" where
  "is_string (Some (JStr s)) = True"
| "is_string v = False"

fun is_number :: "json option \<Rightarrow> bool" where
  "is_number (Some (JNum n)) = True"
| "is_number v = False"

fun is_string_array :: "json option \<Rightarrow> bool" where
  "is_string_array (Some (JArr xs)) = list_all (\<lambda>x. is_string (Some x)) xs"
| "is_string_array v = False"

definition is_pricingOverview :: "json option \<Rightarrow> bool" where
  "is_pricingOverview v = (case v of
       Some (JObj kvs) \<Rightarrow>
         is_string (map_of kvs (js ''totalAmount'')) \<and>
         is_string_array (map_of kvs (js ''breakdown'')) \<and>
         is_string (map_of kvs (js ''paymentTerms''))
     | _ \<Rightarrow> False)"

definition is_metadata :: "json option \<Rightarrow> bool" where
  "is_metadata v = (case v of
       Some (JObj kvs) \<Rightarrow>
         is_string (map_of kvs (js ''fileName'')) \<and>
         is_number (map_of kvs (js ''fileSize'')) \<and>
         is_string (map_of kvs (js ''processedAt'')) \<and>
         is_number (map_of kvs (js ''textLength''))
     | _ \<Rightarrow> False)"

definition is_analysis_fields :: "json \<Rightarrow> bool" where
  "is_analysis_fields v =
     (is_string (get_prop v (js ''executiveSummary'')) \<and>
      is_string_array (get_prop v (js ''keyRequirements'')) \<and>
      is_pricingOverview (get_prop v (js ''pricingOverview'')) \<and>
      is_string_array (get_prop v (js ''recommendedNextSteps'')))"

definition is_AnalysisResult :: "json \<Rightarrow> bool" where
  "is_AnalysisResult v = (is_analysis_fields v \<and> is_metadata (get_prop v (js ''metadata'')))"

section \<open>The analysis service (server.js)\<close>

text \<open>
  The route \<open>POST /api/analyze-proposal\<close> is \<open>upload.single('pdf')\<close>, then the
  handler, then the error-handling middleware for what the upload stage passes to
  \<open>next\<close>. The model is of a request that the rate limiter in front of \<open>/api/\<close> has
  let through, carrying at most one file part, in the field \<open>pdf\<close>.
\<close>

datatype js_error =
    Error jsstring
  | MulterError jsstring jsstring

text \<open>A \<open>MulterError\<close> has a code and a message.\<close>

fun message :: "js_error \<Rightarrow> jsstring" where
  "message (Error m) = m"
| "message (MulterError code m) = m"

record multipart_file =
  originalname :: jsstring
  mimetype :: jsstring
  buffer :: "byte list"

text \<open>With memory storage, \<open>file.size\<close> is the number of bytes buffered.\<close>

definition size_of :: "multipart_file \<Rightarrow> nat" where
  "size_of file = length (buffer file)"

record response =
  status :: nat
  body :: json

text \<open>
  The external collaborators a request meets, and the calls made to them:
  \<open>pdfParse\<close> gives the text of a buffer or throws; \<open>openai\<close> is the client when
  one was created at startup, giving for a prompt the content of the first choice
  (\<open>None\<close> for \<open>null\<close>) or throwing; \<open>parseJSON\<close> is \<open>JSON.parse\<close>;
  \<open>toISOString_now\<close> is the value of \<open>new Date().toISOString()\<close>.
\<close>

record env =
  pdfParse :: "byte list \<Rightarrow> js_error + jsstring"
  openai :: "(jsstring \<Rightarrow> js_error + jsstring option) option"
  parseJSON :: "jsstring \<Rightarrow> js_error + json"
  toISOString_now :: jsstring

datatype call =
    PdfParseCall "byte list"
  | ChatCompletionCall jsstring

definition json_error :: "nat \<Rightarrow> string \<Rightarrow> response" where
  "json_error st msg = \<lparr>status = st, body = JObj [(js ''error'', JStr (js msg))]\<rparr>"

subsection \<open>Upload stage\<close>

definition fileSize_limit :: nat where
  "fileSize_limit = 10 * 1024 * 1024"

definition fileFilter :: "multipart_file \<Rightarrow> js_error + bool" where
  "fileFilter file =
     (if mimetype file = js ''application/pdf'' then Inr True
      else Inl (Error (js ''Only PDF files are allowed!'')))"

text \<open>
  The upload middleware skips a file part without a file name, so that \<open>req.file\<close>
  stays undefined as for a request without a file part. Otherwise it asks
  \<open>fileFilter\<close> when the part starts, then buffers the part and fails with
  \<open>LIMIT_FILE_SIZE\<close> when the number of bytes reaches \<open>limits.fileSize\<close>.
\<close>

definition upload_single :: "multipart_file option \<Rightarrow> js_error + multipart_file option" where
  "upload_single part = (case part of
       None \<Rightarrow> Inr None
     | Some file \<Rightarrow>
         if originalname file = [] then Inr None
         else (case fileFilter file of
            Inl err \<Rightarrow> Inl err
          | Inr accepted \<Rightarrow>
              if size_of file \<ge> fileSize_limit
              then Inl (MulterError (js ''LIMIT_FILE_SIZE'') (js ''File too large''))
              else Inr (Some file)))"

subsection \<open>Error-handling middleware\<close>

definition error_middleware :: "js_error \<Rightarrow> response" where
  "error_middleware err = (case err of
       MulterError code m \<Rightarrow>
         if code = js ''LIMIT_FILE_SIZE''
         then json_error 400 ''File too large. Maximum size is 10MB.''
         else json_error 500 ''Internal server error''
     | Error m \<Rightarrow> json_error 500 ''Internal server error'')"

subsection \<open>Handler\<close>

definition nl :: jsstring where
  "nl = [0x0A]"

definition prompt_head :: jsstring where
  \<open>prompt_head = nl @
     js ''You are an expert business analyst. Analyze the following client proposal and extract information EXACTLY as it appears in the document. Do not make assumptions or add information not present in the text.'' @ nl @
     nl @
     js ''Proposal Text:'' @ nl\<close>

definition prompt_tail :: jsstring where
  \<open>prompt_tail = nl @
     nl @
     js ''INSTRUCTIONS:'' @ nl @
     js ''1. Executive Summary: Write exactly 3-5 sentences summarizing the proposal'' @ nl @
     js ''2. Key Requirements: List ALL major requirements and asks from the document'' @ nl @
     js ''3. Pricing Overview: Extract EXACT pricing information, amounts, and terms as stated'' @ nl @
     js ''4. Recommended Next Steps: List the exact next steps mentioned in the proposal'' @ nl @
     nl @
     js ''Please respond with a valid JSON object in this exact format:'' @ nl @
     js ''{'' @ nl @
     js ''  "executiveSummary": "Exactly 3-5 sentences describing what this proposal is about and its main objectives",'' @ nl @
     js ''  "keyRequirements": ['' @ nl @
     js ''    "List each key requirement or deliverable exactly as mentioned in the document"'' @ nl @
     js ''  ],'' @ nl @
     js ''  "pricingOverview": {'' @ nl @
     js ''    "totalAmount": "The exact total amount mentioned in the document with currency",'' @ nl @
     js ''    "breakdown": ['' @ nl @
     js ''      "List each pricing component with exact amounts as stated in the document"'' @ nl @
     js ''    ],'' @ nl @
     js ''    "paymentTerms": "The exact payment terms mentioned in the document"'' @ nl @
     js ''  },'' @ nl @
     js ''  "recommendedNextSteps": ['' @ nl @
     js ''    "List each recommended next step exactly as stated in the document"'' @ nl @
     js ''  ]'' @ nl @
     js ''}''\<close>

definition prompt :: "jsstring \<Rightarrow> jsstring" where
  "prompt extractedText = prompt_head @ extractedText @ prompt_tail"

text \<open>The outer \<open>catch\<close> of the handler.\<close>

definition catch_block :: "js_error \<Rightarrow> response" where
  "catch_block err =
     (if str_includes (message err) (js ''API key'')
      then json_error 500 ''AI service configuration error''
      else json_error 500 ''Failed to process proposal'')"

text \<open>Calling \<open>trim\<close> on a \<open>null\<close> message content throws a TypeError.\<close>

definition null_content_error :: js_error where
  "null_content_error =
     Error (js ''Cannot read properties of null (reading '' @ [0x27] @ js ''trim'' @ [0x27] @ js '')'')"

definition not_configured_response :: response where
  "not_configured_response =
     \<lparr>status = 503,
      body = JObj
        [(js ''error'', JStr (js ''AI service configuration error'')),
         (js ''message'', JStr (js ''OpenAI API key not configured. Please set OPENAI_API_KEY in environment variables.'')),
         (js ''suggestion'', JStr (js ''Try the demo mode in the frontend for a sample analysis.''))]\<rparr>"

definition metadata_of :: "env \<Rightarrow> multipart_file \<Rightarrow> jsstring \<Rightarrow> json" where
  "metadata_of e file extractedText = JObj
     [(js ''fileName'', JStr (originalname file)),
      (js ''fileSize'', JNum (int (size_of file))),
      (js ''processedAt'', JStr (toISOString_now e)),
      (js ''textLength'', JNum (int (length extractedText)))]"

definition with_metadata :: "json \<Rightarrow> json \<Rightarrow> json" where
  "with_metadata analysis meta = JObj (obj_set (spread analysis) (js ''metadata'') meta)"

definition analyze_handler :: "env \<Rightarrow> multipart_file option \<Rightarrow> response \<times> call list" where
  "analyze_handler e req_file = (case req_file of
       None \<Rightarrow> (json_error 400 ''No PDF file uploaded'', [])
     | Some file \<Rightarrow>
         (case pdfParse e (buffer file) of
            Inl err \<Rightarrow> (catch_block err, [PdfParseCall (buffer file)])
          | Inr extractedText \<Rightarrow>
              if extractedText = [] \<or> length (trim extractedText) = 0
              then (json_error 400 ''Could not extract text from PDF'', [PdfParseCall (buffer file)])
              else (case openai e of
                 None \<Rightarrow> (not_configured_response, [PdfParseCall (buffer file)])
               | Some create \<Rightarrow>
                   let calls = [PdfParseCall (buffer file), ChatCompletionCall (prompt extractedText)]
                   in (case create (prompt extractedText) of
                      Inl err \<Rightarrow> (catch_block err, calls)
                    | Inr None \<Rightarrow> (catch_block null_content_error, calls)
                    | Inr (Some content) \<Rightarrow>
                        (case parseJSON e (trim content) of
                           Inl parseError \<Rightarrow> (json_error 500 ''Failed to process AI response'', calls)
                         | Inr analysis \<Rightarrow>
                             (\<lparr>status = 200,
                               body = with_metadata analysis (metadata_of e file extractedText)\<rparr>,
                              calls))))))"

definition analyze_proposal_route :: "env \<Rightarrow> multipart_file option \<Rightarrow> response \<times> call list" where
  "analyze_proposal_route e part = (case upload_single part of
       Inl err \<Rightarrow> (error_middleware err, [])
     | Inr req_file \<Rightarrow> analyze_handler e req_file)"

text \<open>Whether a run called the text extractor or the language model.\<close>

fun is_extraction :: "call \<Rightarrow> bool" where
  "is_extraction (PdfParseCall b) = True"
| "is_extraction (ChatCompletionCall p) = False"

fun is_model_call :: "call \<Rightarrow> bool" where
  "is_model_call (ChatCompletionCall p) = True"
| "is_model_call (PdfParseCall b) = False"

subsection \<open>Sample requests\<close>

definition sample_pdf :: multipart_file where
  "sample_pdf = \<lparr>originalname = js ''proposal.pdf'', mimetype = js ''application/pdf'',
     buffer = [0x25, 0x50, 0x44, 0x46]\<rparr>"

definition oversized_pdf :: multipart_file where
  "oversized_pdf = \<lparr>originalname = js ''big.pdf'', mimetype = js ''application/pdf'',
     buffer = replicate 10485761 0\<rparr>"

definition oversized_text_file :: multipart_file where
  "oversized_text_file = \<lparr>originalname = js ''notes.txt'', mimetype = js ''text/plain'',
     buffer = replicate 10485761 0\<rparr>"

definition boundary_pdf :: multipart_file where
  "boundary_pdf = \<lparr>originalname = js ''limit.pdf'', mimetype = js ''application/pdf'',
     buffer = replicate 10485760 0\<rparr>"

text \<open>
  A sample environment, for one request: the extractor gives a text, the client is
  absent or replies with a content, and \<open>JSON.parse\<close> gives a result for the one text
  the handler parses. \<open>no_reply\<close> stands for that result in a run where the handler
  parses nothing.
\<close>

definition replying :: "jsstring \<Rightarrow> (jsstring \<Rightarrow> js_error + jsstring option) option" where
  "replying content = Some (\<lambda>prompt. Inr (Some content))"

definition sample_env ::
  "jsstring \<Rightarrow> (jsstring \<Rightarrow> js_error + jsstring option) option \<Rightarrow> js_error + json \<Rightarrow> env" where
  "sample_env text client parsed =
     \<lparr>pdfParse = (\<lambda>bytes. Inr text), openai = client,
      parseJSON = (\<lambda>reply. parsed),
      toISOString_now = js ''2025-06-01T12:00:00.000Z''\<rparr>"

definition no_reply :: "js_error + json" where
  "no_reply = Inl (Error (js ''SyntaxError''))"

definition sample_reply :: jsstring where
  \<open>sample_reply = js ''{"executiveSummary":"S","keyRequirements":[],"pricingOverview":{"totalAmount":"1","breakdown":["a"],"paymentTerms":"net 30"},"recommendedNextSteps":["b"]}''\<close>

definition sample_analysis :: json where
  "sample_analysis = JObj
     [(js ''executiveSummary'', JStr (js ''S'')),
      (js ''keyRequirements'', JArr []),
      (js ''pricingOverview'', JObj
         [(js ''totalAmount'', JStr (js ''1'')),
          (js ''breakdown'', JArr [JStr (js ''a'')]),
          (js ''paymentTerms'', JStr (js ''net 30''))]),
      (js ''recommendedNextSteps'', JArr [JStr (js ''b'')])]"

section \<open>The upload component (FileUpload)\<close>

subsection \<open>Results\<close>

text \<open>The interface \<open>AnalysisResult\<close>, and the object a value of it is.\<close>

record Pricing =
  totalAmount :: jsstring
  breakdown :: "jsstring list"
  paymentTerms :: jsstring

record Metadata =
  fileName :: jsstring
  fileSize :: int
  processedAt :: jsstring
  textLength :: int

record AnalysisResult =
  executiveSummary :: jsstring
  keyRequirements :: "jsstring list"
  pricingOverview :: Pricing
  recommendedNextSteps :: "jsstring list"
  metadata :: Metadata

definition object_of :: "AnalysisResult \<Rightarrow> json" where
  "object_of r = JObj
     [(js ''executiveSummary'', JStr (executiveSummary r)),
      (js ''keyRequirements'', JArr (map JStr (keyRequirements r))),
      (js ''pricingOverview'', JObj
         [(js ''totalAmount'', JStr (totalAmount (pricingOverview r))),
          (js ''breakdown'', JArr (map JStr (breakdown (pricingOverview r)))),
          (js ''paymentTerms'', JStr (paymentTerms (pricingOverview r)))]),
      (js ''recommendedNextSteps'', JArr (map JStr (recommendedNextSteps r))),
      (js ''metadata'', JObj
         [(js ''fileName'', JStr (fileName (metadata r))),
          (js ''fileSize'', JNum (fileSize (metadata r))),
          (js ''processedAt'', JStr (processedAt (metadata r))),
          (js ''textLength'', JNum (textLength (metadata r)))])]"

text \<open>A browser \<open>File\<close>: its name, byte size and declared media type.\<close>

record File =
  file_name :: jsstring
  file_size :: nat
  file_type :: jsstring

definition demoFile :: File where
  "demoFile = \<lparr>file_name = js ''sample-proposal.pdf'', file_size = length ''demo content'',
     file_type = js ''application/pdf''\<rparr>"

text \<open>
  The result \<open>runDemo\<close> shows. Its argument is the value of
  \<open>new Date().toISOString()\<close> when the timer fires.
\<close>

definition demo_mockResult :: "jsstring \<Rightarrow> AnalysisResult" where
  "demo_mockResult date =
     \<lparr>executiveSummary = js ''This comprehensive digital transformation proposal outlines a strategic initiative to modernize legacy systems and enhance operational efficiency. The proposal demonstrates extensive technical expertise in cloud migration, custom software development, and enterprise security implementation. With a total investment of $485,000 over 8 months, this project promises to deliver a 40% improvement in operational efficiency and 25% reduction in IT costs. The proposal includes detailed implementation phases, comprehensive training programs, and ongoing support structures.'',
      keyRequirements =
        [js ''Complete legacy system migration to modern cloud infrastructure with zero downtime'',
         js ''Custom software development including customer portal and mobile applications'',
         js ''Comprehensive staff training program covering 50+ employees across multiple departments'',
         js ''Implementation of enterprise-grade security protocols with multi-factor authentication'',
         js ''24/7 technical support and maintenance coverage for the first 6 months'',
         js ''Real-time data analytics implementation and automated reporting system'',
         js ''Security audit and penetration testing for compliance validation''],
      pricingOverview =
        \<lparr>totalAmount = js ''$485,000'',
         breakdown =
           [js ''Phase 1 - Legacy Migration & Analysis: $180,000'',
            js ''Phase 2 - Custom Development & Integration: $220,000'',
            js ''Phase 3 - Training, Support & Documentation: $85,000''],
         paymentTerms = js ''30% upon contract signing ($145,500), 40% at Phase 2 completion ($194,000), 30% upon final delivery ($145,500)''\<rparr>,
      recommendedNextSteps =
        [js ''Schedule technical review meeting with client'' @ [0x27] @ js ''s IT team within 5 business days'',
         js ''Finalize detailed project scope and requirements documentation with stakeholder input'',
         js ''Execute master service agreement and comprehensive statement of work'',
         js ''Begin project kickoff phase with cross-functional team onboarding'',
         js ''Conduct thorough legacy system audit and create detailed migration timeline'',
         js ''Establish communication protocols and project management framework'',
         js ''Set up development environment and testing infrastructure'',
         js ''Create risk mitigation strategies and contingency planning''],
      metadata =
        \<lparr>fileName = js ''sample-proposal.pdf'', fileSize = 156789, processedAt = date,
         textLength = 2847\<rparr>\<rparr>"

text \<open>The result the fallback of \<open>analyzeProposal\<close> shows for the file of its closure.\<close>

definition fallback_mockResult :: "File \<Rightarrow> jsstring \<Rightarrow> AnalysisResult" where
  "fallback_mockResult f date =
     \<lparr>executiveSummary = js ''Based on the uploaded proposal '' @ [0x22] @ file_name f @ [0x22] @ js '', this appears to be a comprehensive business proposal outlining digital transformation services. The proposal demonstrates strong technical capabilities and includes detailed project timelines, cost breakdowns, and implementation strategies. The proposed solution addresses key business needs including system modernization, operational efficiency improvements, and technological advancement. This is a well-structured proposal with clear deliverables and professional presentation.'',
      keyRequirements =
        [js ''Complete legacy system migration to modern cloud infrastructure'',
         js ''Custom software development for customer portal and mobile applications'',
         js ''Comprehensive staff training program for 50+ employees'',
         js ''Implementation of enterprise-grade security protocols and multi-factor authentication'',
         js ''24/7 technical support and maintenance for the first 6 months'',
         js ''Data integrity verification and zero-downtime migration requirements''],
      pricingOverview =
        \<lparr>totalAmount = js ''$485,000'',
         breakdown =
           [js ''Phase 1 - Legacy Migration: $180,000'',
            js ''Phase 2 - Custom Development: $220,000'',
            js ''Phase 3 - Training & Support: $85,000''],
         paymentTerms = js ''30% upon contract signing, 40% at Phase 2 completion, 30% upon final delivery''\<rparr>,
      recommendedNextSteps =
        [js ''Schedule technical review meeting with client'' @ [0x27] @ js ''s IT team within 5 business days'',
         js ''Finalize detailed project scope and requirements documentation'',
         js ''Execute master service agreement and statement of work'',
         js ''Begin project kickoff phase with team onboarding and stakeholder alignment'',
         js ''Conduct initial system audit and create migration timeline'',
         js ''Establish communication protocols and project management framework''],
      metadata =
        \<lparr>fileName = file_name f, fileSize = int (file_size f), processedAt = date,
         textLength = 2847\<rparr>\<rparr>"

subsection \<open>Component state\<close>

text \<open>
  The four state variables and the two refs of the component, and around them what the
  browser holds for it: which abort controllers have been aborted, the timers that are
  pending (identifier, due time, callback), the requests that have not settled (the
  controller whose signal they carry, the file of the closure), the toasts shown, a
  supply of identifiers and the time in milliseconds. In \<open>result\<close>, \<open>JNull\<close> is
  \<open>null\<close>.
\<close>

datatype toast = Success jsstring | Failure jsstring

datatype timer_callback = DemoTimeout | FallbackTimeout File

record client =
  selectedFile :: "File option"
  loading :: bool
  result :: json
  error :: "jsstring option"
  abortControllerRef :: "nat option"
  timeoutRef :: "nat option"
  aborted :: "nat list"
  timers :: "(nat \<times> nat \<times> timer_callback) list"
  requests :: "(nat \<times> File) list"
  toasts :: "toast list"
  fresh :: nat
  clock :: nat

definition initial :: client where
  "initial = \<lparr>selectedFile = None, loading = False, result = JNull, error = None,
     abortControllerRef = None, timeoutRef = None, aborted = [], timers = [], requests = [],
     toasts = [], fresh = 1, clock = 0\<rparr>"

definition abort :: "nat \<Rightarrow> client \<Rightarrow> client" where
  "abort c s = s\<lparr>aborted := c # aborted s\<rparr>"

definition clearTimeout :: "nat \<Rightarrow> client \<Rightarrow> client" where
  "clearTimeout t s = s\<lparr>timers := filter (\<lambda>(i, due, cb). i \<noteq> t) (timers s)\<rparr>"

definition setTimeout :: "timer_callback \<Rightarrow> nat \<Rightarrow> client \<Rightarrow> nat \<times> client" where
  "setTimeout cb delay s =
     (fresh s, s\<lparr>timers := timers s @ [(fresh s, clock s + delay, cb)], fresh := Suc (fresh s)\<rparr>)"

definition show_toast :: "toast \<Rightarrow> client \<Rightarrow> client" where
  "show_toast t s = s\<lparr>toasts := toasts s @ [t]\<rparr>"

text \<open>\<open>abortControllerRef.current?.signal.aborted\<close>, undefined when the ref is empty.\<close>

definition current_signal_aborted :: "client \<Rightarrow> bool" where
  "current_signal_aborted s = (case abortControllerRef s of
       None \<Rightarrow> False
     | Some c \<Rightarrow> c \<in> set (aborted s))"

subsection \<open>Handlers\<close>

definition resetAnalysis :: "client \<Rightarrow> client" where
  "resetAnalysis s =
     (let s1 = (case abortControllerRef s of
                  Some c \<Rightarrow> (abort c s)\<lparr>abortControllerRef := None\<rparr>
                | None \<Rightarrow> s);
          s2 = (case timeoutRef s1 of
                  Some t \<Rightarrow> (clearTimeout t s1)\<lparr>timeoutRef := None\<rparr>
                | None \<Rightarrow> s1)
      in show_toast (Success (js ''Analysis stopped and reset successfully''))
           (s2\<lparr>loading := False, result := JNull, error := None\<rparr>))"

definition onDrop :: "File list \<Rightarrow> client \<Rightarrow> client" where
  "onDrop acceptedFiles s = (case acceptedFiles of
       [] \<Rightarrow> show_toast (Failure (js ''Please upload a PDF file'')) s
     | uploadedFile # others \<Rightarrow>
         if file_type uploadedFile = js ''application/pdf''
         then (resetAnalysis s)\<lparr>selectedFile := Some uploadedFile\<rparr>
         else show_toast (Failure (js ''Please upload a PDF file'')) s)"

text \<open>The button \<open>Upload Different File\<close>.\<close>

definition uploadDifferentFile :: "client \<Rightarrow> client" where
  "uploadDifferentFile s = (resetAnalysis s)\<lparr>selectedFile := None\<rparr>"

definition runDemo :: "client \<Rightarrow> client" where
  "runDemo s =
     (let s1 = resetAnalysis s;
          s2 = s1\<lparr>loading := True, error := None, selectedFile := Some demoFile\<rparr>;
          (t, s3) = setTimeout DemoTimeout 3000 s2
      in s3\<lparr>timeoutRef := Some t\<rparr>)"

text \<open>The callback of the timer of \<open>runDemo\<close>.\<close>

definition demo_timeout :: "(nat \<Rightarrow> jsstring) \<Rightarrow> client \<Rightarrow> client" where
  "demo_timeout toISOString s =
     (if timeoutRef s = None then s
      else show_toast (Success (js ''Demo analysis complete! This is how real AI analysis works.''))
             (s\<lparr>result := object_of (demo_mockResult (toISOString (clock s))),
                loading := False, timeoutRef := None\<rparr>))"

text \<open>\<open>analyzeProposal\<close> up to its first \<open>await\<close>: the request is sent.\<close>

definition analyzeProposal :: "client \<Rightarrow> client" where
  "analyzeProposal s = (case selectedFile s of
       None \<Rightarrow> s
     | Some f \<Rightarrow>
         (let s1 = (case abortControllerRef s of Some c \<Rightarrow> abort c s | None \<Rightarrow> s);
              c = fresh s1
          in s1\<lparr>abortControllerRef := Some c, fresh := Suc c, loading := True, error := None,
                requests := requests s1 @ [(c, f)]\<rparr>))"

text \<open>
  How a request ends, when its signal has not been aborted: a response with a success
  status whose body parses, one whose body does not parse, a response with another
  status, or a rejected \<open>fetch\<close>. A request whose signal has been aborted rejects
  with an \<open>AbortError\<close>.
\<close>

datatype outcome = Ok json | OkUnreadable | NotOk nat | NetworkError

definition finally_block :: "client \<Rightarrow> client" where
  "finally_block s = s\<lparr>loading := False, abortControllerRef := None\<rparr>"

text \<open>
  The rest of \<open>analyzeProposal\<close>, for the request sent with controller \<open>c\<close> and
  file \<open>f\<close>.
\<close>

definition settle :: "nat \<Rightarrow> File \<Rightarrow> outcome \<Rightarrow> client \<Rightarrow> client" where
  "settle c f out s =
     (if c \<in> set (aborted s) then finally_block s
      else (case out of
         Ok analysisResult \<Rightarrow>
           if current_signal_aborted s then finally_block s
           else finally_block (show_toast (Success (js ''Proposal analyzed successfully!''))
                  (s\<lparr>result := analysisResult\<rparr>))
       | other \<Rightarrow>
           (let (t, s1) = setTimeout (FallbackTimeout f) 2000 s
            in finally_block (s1\<lparr>timeoutRef := Some t\<rparr>))))"

text \<open>The callback of the fallback timer.\<close>

definition fallback_timeout :: "(nat \<Rightarrow> jsstring) \<Rightarrow> File \<Rightarrow> client \<Rightarrow> client" where
  "fallback_timeout toISOString f s =
     (if timeoutRef s = None \<or> current_signal_aborted s then s
      else (show_toast (Success (js ''Proposal analyzed successfully! (Demo mode)''))
              (s\<lparr>result := object_of (fallback_mockResult f (toISOString (clock s)))\<rparr>))
           \<lparr>timeoutRef := None\<rparr>)"

subsection \<open>Events\<close>

text \<open>
  A timer that is due leaves the pending timers and its callback runs at its due time.
  Time passes by firing the due timers in the order of their due times; no callback
  sets or clears a timer, so the timers due are those pending at the start.
\<close>

fun run_callback :: "(nat \<Rightarrow> jsstring) \<Rightarrow> timer_callback \<Rightarrow> client \<Rightarrow> client" where
  "run_callback toISOString DemoTimeout s = demo_timeout toISOString s"
| "run_callback toISOString (FallbackTimeout f) s = fallback_timeout toISOString f s"

definition fire :: "(nat \<Rightarrow> jsstring) \<Rightarrow> nat \<times> nat \<times> timer_callback \<Rightarrow> client \<Rightarrow> client" where
  "fire toISOString timer s = (case timer of (t, due, cb) \<Rightarrow>
     run_callback toISOString cb ((clearTimeout t s)\<lparr>clock := max (clock s) due\<rparr>))"

definition due_timers :: "nat \<Rightarrow> client \<Rightarrow> (nat \<times> nat \<times> timer_callback) list" where
  "due_timers now s = sort_key (\<lambda>(t, due, cb). due) (filter (\<lambda>(t, due, cb). due \<le> now) (timers s))"

definition advance :: "(nat \<Rightarrow> jsstring) \<Rightarrow> nat \<Rightarrow> client \<Rightarrow> client" where
  "advance toISOString now s =
     (let s' = fold (fire toISOString) (due_timers now s) s
      in s'\<lparr>clock := max (clock s') now\<rparr>)"

datatype event =
    ResetAnalysis
  | OnDrop "File list"
  | UploadDifferentFile
  | RunDemo
  | AnalyzeProposal
  | Settle nat outcome
  | Wait

fun handle :: "event \<Rightarrow> client \<Rightarrow> client" where
  "handle ResetAnalysis s = resetAnalysis s"
| "handle (OnDrop acceptedFiles) s = onDrop acceptedFiles s"
| "handle UploadDifferentFile s = uploadDifferentFile s"
| "handle RunDemo s = runDemo s"
| "handle AnalyzeProposal s = analyzeProposal s"
| "handle (Settle c out) s = (case map_of (requests s) c of
       None \<Rightarrow> s
     | Some f \<Rightarrow> settle c f out (s\<lparr>requests := filter (\<lambda>(c', f'). c' \<noteq> c) (requests s)\<rparr>))"
| "handle Wait s = s"

text \<open>A run: each event comes with the milliseconds that pass before it.\<close>

fun run :: "(nat \<Rightarrow> jsstring) \<Rightarrow> (nat \<times> event) list \<Rightarrow> client \<Rightarrow> client" where
  "run toISOString [] s = s"
| "run toISOString ((delay, ev) # evs) s =
     run toISOString evs (handle ev (advance toISOString (clock s + delay) s))"

subsection \<open>Export\<close>

text \<open>The values \<open>!result\<close> takes for absent.\<close>

fun falsy :: "json \<Rightarrow> bool" where
  "falsy JNull = True"
| "falsy (JBool b) = (\<not> b)"
| "falsy (JNum n) = (n = 0)"
| "falsy (JStr s) = (s = [])"
| "falsy (JArr xs) = False"
| "falsy (JObj kvs) = False"

text \<open>\<open>String.prototype.replace\<close> with a string pattern: the first occurrence.\<close>

fun replace_first :: "jsstring \<Rightarrow> jsstring \<Rightarrow> jsstring \<Rightarrow> jsstring" where
  "replace_first [] pat rep = (if pat = [] then rep else [])"
| "replace_first (c # cs) pat rep =
     (if starts_with (c # cs) pat then rep @ drop (length pat) (c # cs)
      else c # replace_first cs pat rep)"

text \<open>
  \<open>exportResultsAsJSON\<close>: nothing without a result; otherwise the text of the result
  is downloaded under a name made from \<open>result.metadata.fileName\<close>, and reading that
  property from a result without it throws a TypeError before anything is downloaded.
  The download is the file name and the text put into the blob.
\<close>

datatype export = NothingToExport | TypeError | Downloaded jsstring jsstring

definition exportResultsAsJSON :: "client \<Rightarrow> export \<times> client" where
  "exportResultsAsJSON s =
     (if falsy (result s) then (NothingToExport, s)
      else (let dataStr = JSON_stringify (result s)
            in (case get_prop (result s) (js ''metadata'') of
                  Some m \<Rightarrow>
                    (case get_prop m (js ''fileName'') of
                       Some (JStr name) \<Rightarrow>
                         (Downloaded (js ''analysis-'' @ replace_first name (js ''.pdf'') [] @ js ''.json'') dataStr,
                          show_toast (Success (js ''Analysis exported as JSON!'')) s)
                     | _ \<Rightarrow> (TypeError, s))
                | None \<Rightarrow> (TypeError, s))))"

subsection \<open>Sample runs\<close>

definition proposal_file :: File where
  "proposal_file = \<lparr>file_name = js ''proposal.pdf'', file_size = 48213, file_type = js ''application/pdf''\<rparr>"

definition reanalyze_trace :: "(nat \<times> event) list" where
  "reanalyze_trace =
     [(0, OnDrop [proposal_file]), (0, AnalyzeProposal), (50, Settle 1 NetworkError),
      (950, AnalyzeProposal), (1500, Wait)]"

definition both_fail_trace :: "(nat \<times> event) list" where
  "both_fail_trace =
     [(0, OnDrop [proposal_file]), (0, AnalyzeProposal), (50, Settle 1 NetworkError),
      (950, AnalyzeProposal), (50, Settle 3 NetworkError), (2500, Wait)]"

definition stale_timer_trace :: "(nat \<times> event) list" where
  "stale_timer_trace =
     [(0, OnDrop [proposal_file]), (0, AnalyzeProposal), (50, Settle 1 NetworkError),
      (550, AnalyzeProposal), (50, Settle 3 NetworkError), (550, RunDemo), (3000, Wait)]"

definition reset_after_failures_trace :: "(nat \<times> event) list" where
  "reset_after_failures_trace =
     [(0, OnDrop [proposal_file]), (0, AnalyzeProposal), (50, Settle 1 NetworkError),
      (550, AnalyzeProposal), (50, Settle 3 NetworkError), (550, ResetAnalysis)]"

definition reset_then_demo_trace :: "(nat \<times> event) list" where
  "reset_then_demo_trace = reset_after_failures_trace @ [(100, RunDemo), (3000, Wait)]"


section \<open>JSON.parse after JSON.stringify\<close>

lemma unat_of_nat_small: "n < 65536 \<Longrightarrow> unat (of_nat n :: code_unit) = n"
  by (simp only: unat_of_nat) simp

lemma unat_hex_digit: "d < 16 \<Longrightarrow> unat (hex_digit d) = (if d < 10 then 48 + d else 87 + d)"
  by (simp add: hex_digit_def unat_of_nat_small del: of_nat_add)

lemma hex_value_hex_digit: "d < 16 \<Longrightarrow> hex_value (hex_digit d) = Some d"
  by (simp add: hex_value_def word_le_nat_alt unat_hex_digit)

lemma nibbles:
  assumes "n < (65536::nat)"
  shows "4096 * (n div 4096 mod 16) + 256 * (n div 256 mod 16) + 16 * (n div 16 mod 16) + n mod 16 = n"
proof -
  have a: "n mod 256 = 16 * (n div 16 mod 16) + n mod 16"
    using mod_mult2_eq [of n 16 16] by simp
  have b: "n mod 4096 = 256 * (n div 256 mod 16) + n mod 256"
    using mod_mult2_eq [of n 256 16] by simp
  have c: "n mod 65536 = 4096 * (n div 4096 mod 16) + n mod 4096"
    using mod_mult2_eq [of n 4096 16] by simp
  from assms have "n mod 65536 = n" by simp
  with a b c show ?thesis by linarith
qed

lemma hex4_unicode_escape:
  "hex4 (hex_digit (unat c div 4096 mod 16)) (hex_digit (unat c div 256 mod 16))
        (hex_digit (unat c div 16 mod 16)) (hex_digit (unat c mod 16)) = Some c"
proof -
  have lt: "unat c < 65536" using unsigned_less [of c] by simp
  have d: "hex_value (hex_digit (k mod 16)) = Some (k mod 16)" for k
    by (rule hex_value_hex_digit) simp
  have "(of_nat (unat c) :: code_unit) = c" by simp
  then show ?thesis
    by (simp only: hex4_def d nibbles [OF lt] prod.case option.case)
qed

lemma parse_chars_escape:
  "parse_chars (unicode_escape c @ t) = add_unit c (parse_chars t)"
  by (simp add: unicode_escape_def hex4_unicode_escape)

lemma parse_chars_quote_unit:
  "parse_chars (quote_unit c @ t) = add_unit c (parse_chars t)"
proof (cases "c < 0x20 \<or> is_leading_surrogate c \<or> is_trailing_surrogate c")
  case True
  then show ?thesis
    by (simp add: quote_unit_def parse_chars_escape unescape_def del: parse_chars.simps)
      (simp add: unescape_def)
next
  case False
  then show ?thesis
    by (simp add: quote_unit_def unescape_def)
qed

lemma surrogate_literal:
  assumes "is_leading_surrogate c \<or> is_trailing_surrogate c"
  shows "parse_chars (c # t) = add_unit c (parse_chars t)"
proof -
  from assms have "0xD800 \<le> c"
    by (auto simp: is_leading_surrogate_def is_trailing_surrogate_def word_le_nat_alt)
  then have "c \<noteq> 0x22" "c \<noteq> 0x5C" "\<not> c < 0x20"
    by (auto simp: word_le_nat_alt word_less_nat_alt)
  then show ?thesis by simp
qed

lemma parse_chars_quote_units:
  "parse_chars (quote_units s @ 0x22 # rest) = Parsed (s, rest)"
proof (induction s rule: quote_units.induct)
  case 1
  show ?case by simp
next
  case (2 c)
  show ?case
    by (simp add: parse_chars_quote_unit add_unit_def del: parse_chars.simps) simp
next
  case (3 c d cs)
  show ?case
  proof (cases "is_leading_surrogate c \<and> is_trailing_surrogate d")
    case True
    then have "quote_units (c # d # cs) = c # d # quote_units cs"
      by simp
    with True 3 show ?thesis
      by (simp add: surrogate_literal add_unit_def del: parse_chars.simps quote_units.simps)
  next
    case False
    then have "quote_units (c # d # cs) = quote_unit c @ quote_units (d # cs)"
      by auto
    with False 3 show ?thesis
      by (simp add: parse_chars_quote_unit add_unit_def del: parse_chars.simps quote_units.simps)
  qed
qed

lemma parse_string:
  "parse_chars (tl (QuoteJSONString s) @ rest) = Parsed (s, rest)"
  by (simp add: QuoteJSONString_def parse_chars_quote_units del: parse_chars.simps)

subsection \<open>Numbers\<close>

lemma unat_digit_unit: "d < 10 \<Longrightarrow> unat (digit_unit d) = 48 + d"
  by (simp add: digit_unit_def unat_of_nat_small del: of_nat_add)

lemma is_digit_digit_unit: "d < 10 \<Longrightarrow> is_digit (digit_unit d)"
  by (simp add: is_digit_def word_le_nat_alt unat_digit_unit)

lemma decimal_not_empty: "decimal n \<noteq> []"
  by (subst decimal.simps) simp

lemma decimal_all_digits: "c \<in> set (decimal n) \<Longrightarrow> is_digit c"
proof (induction n rule: decimal.induct)
  case (1 n)
  show ?case
  proof (cases "n < 10")
    case True
    with "1.prems" show ?thesis
      by (simp add: decimal.simps [of n] is_digit_digit_unit)
  next
    case False
    with "1.prems" have "c \<in> set (decimal (n div 10)) \<or> c = digit_unit (n mod 10)"
      by (auto simp add: decimal.simps [of n])
    with False "1.IH" show ?thesis
      by (auto simp: is_digit_digit_unit)
  qed
qed

lemma digits_value_snoc: "digits_value (ds @ [d]) = 10 * digits_value ds + (unat d - 48)"
  by (simp add: digits_value_def)

lemma digits_value_decimal: "digits_value (decimal n) = n"
proof (induction n rule: decimal.induct)
  case (1 n)
  show ?case
  proof (cases "n < 10")
    case True
    then show ?thesis
      by (simp add: decimal.simps [of n] digits_value_def unat_digit_unit)
  next
    case False
    with "1.IH" show ?thesis
      by (simp add: decimal.simps [of n] digits_value_snoc unat_digit_unit)
  qed
qed

lemma hd_decimal_zero: "0 < n \<Longrightarrow> hd (decimal n) \<noteq> 0x30"
proof (induction n rule: decimal.induct)
  case (1 n)
  show ?case
  proof (cases "n < 10")
    case True
    with "1.prems" have "unat (hd (decimal n)) \<noteq> unat (0x30 :: code_unit)"
      by (simp add: decimal.simps [of n] unat_digit_unit)
    then show ?thesis by auto
  next
    case False
    then have "0 < n div 10" by simp
    with False "1.IH" show ?thesis
      by (simp add: decimal.simps [of n] decimal_not_empty)
  qed
qed

lemma decimal_zero: "decimal 0 = [0x30]"
  by (simp add: decimal.simps [of 0] digit_unit_def)

lemma takeWhile_digits:
  "number_end rest \<Longrightarrow> takeWhile is_digit (decimal n @ rest) = decimal n"
  by (cases rest) (auto simp: number_end_def takeWhile_append decimal_all_digits
      intro!: takeWhile_eq_all_conv [THEN iffD2])

lemma dropWhile_digits:
  "number_end rest \<Longrightarrow> dropWhile is_digit (decimal n @ rest) = rest"
  by (cases rest) (auto simp: number_end_def dropWhile_append decimal_all_digits
      intro!: dropWhile_eq_Nil_conv [THEN iffD2])

lemma parse_unsigned_decimal:
  assumes "number_end rest"
  shows "parse_unsigned (decimal n @ rest) = Parsed (n, rest)"
proof -
  obtain c cs where d: "decimal n = c # cs"
    using decimal_not_empty [of n] by (cases "decimal n") auto
  then have c: "is_digit c" using decimal_all_digits [of c n] by simp
  have tail: "(case rest of [] \<Rightarrow> Parsed (m, rest)
               | r # rs \<Rightarrow> if r = 0x2E \<or> r = 0x65 \<or> r = 0x45 then Unmodelled else Parsed (m, rest))
              = Parsed (m, rest)" for m :: nat
    using assms by (cases rest) (auto simp: number_end_def)
  show ?thesis
  proof (cases "n = 0")
    case True
    with tail show ?thesis
      by (simp add: decimal_zero parse_unsigned_def is_digit_def digits_value_def)
  next
    case False
    then have "c \<noteq> 0x30" using hd_decimal_zero [of n] d by simp
    moreover have "takeWhile is_digit (c # cs @ rest) = decimal n"
      using takeWhile_digits [OF assms, of n] d by simp
    moreover have "dropWhile is_digit (c # cs @ rest) = rest"
      using dropWhile_digits [OF assms, of n] d by simp
    moreover have "digits_value (c # cs) = n"
      using digits_value_decimal [of n] d by simp
    ultimately have "parse_unsigned (c # cs @ rest) = Parsed (n, rest)"
      using c tail by (simp add: parse_unsigned_def digits_value_decimal)
    with d show ?thesis by simp
  qed
qed

lemma parse_number_to_string:
  assumes "number_end rest"
  shows "parse_number (number_to_string i @ rest) = Parsed (JNum i, rest)"
proof (cases "i < 0")
  case True
  then show ?thesis
    by (simp add: number_to_string_def parse_number_def parse_unsigned_decimal [OF assms])
next
  case False
  obtain c cs where d: "decimal (nat i) = c # cs"
    using decimal_not_empty [of "nat i"] by (cases "decimal (nat i)") auto
  then have "is_digit c" using decimal_all_digits [of c "nat i"] by simp
  then have "c \<noteq> 0x2D" by (auto simp: is_digit_def)
  moreover have "parse_unsigned (c # cs @ rest) = Parsed (nat i, rest)"
    using parse_unsigned_decimal [OF assms, of "nat i"] d by simp
  ultimately show ?thesis
    using False d by (simp add: number_to_string_def parse_number_def)
qed

subsection \<open>Layout\<close>

lemma value_start_not_space: "value_start c \<Longrightarrow> \<not> is_json_space c"
  by (auto simp: value_start_def is_json_space_def is_digit_def)

lemma value_start_not_close: "value_start c \<Longrightarrow> c \<noteq> 0x5D \<and> c \<noteq> 0x7D \<and> c \<noteq> 0x2C"
  by (auto simp: value_start_def is_digit_def)

lemma skip_space_spaces: "skip_space (replicate k 0x20 @ t) = skip_space t"
  by (induction k) (simp_all add: skip_space_def is_json_space_def)

lemma skip_space_stop: "\<not> is_json_space c \<Longrightarrow> skip_space (c # t) = c # t"
  by (simp add: skip_space_def)

lemma skip_line: "\<not> is_json_space c \<Longrightarrow> skip_space (0x0A # indentation d @ c # t) = c # t"
proof -
  assume c: "\<not> is_json_space c"
  have "skip_space (0x0A # indentation d @ c # t) = skip_space (indentation d @ c # t)"
    by (simp add: skip_space_def is_json_space_def)
  also have "\<dots> = skip_space (c # t)"
    unfolding indentation_def by (rule skip_space_spaces)
  finally show ?thesis using c by (simp add: skip_space_stop)
qed

lemma number_to_string_start:
  "\<exists>c t. number_to_string i = c # t \<and> (c = 0x2D \<or> is_digit c)"
proof (cases "i < 0")
  case True
  then show ?thesis by (simp add: number_to_string_def)
next
  case False
  obtain c cs where d: "decimal (nat i) = c # cs"
    using decimal_not_empty [of "nat i"] by (cases "decimal (nat i)") auto
  then have "is_digit c" using decimal_all_digits [of c "nat i"] by simp
  with False d show ?thesis by (simp add: number_to_string_def)
qed

lemma serialize_start: "\<exists>c t. serialize d v = c # t \<and> value_start c"
proof (cases v)
  case (JNum i)
  with number_to_string_start [of i] show ?thesis
    by (auto simp: value_start_def)
qed (simp_all add: js_def value_start_def QuoteJSONString_def)

subsection \<open>Atoms\<close>

lemma parse_value_null: "parse_value (Suc n) (js ''null'' @ rest) = Parsed (JNull, rest)"
  by (simp add: js_def)

lemma parse_value_bool:
  "parse_value (Suc n) ((if b then js ''true'' else js ''false'') @ rest) = Parsed (JBool b, rest)"
  by (simp add: js_def)

lemma parse_value_string:
  "parse_value (Suc n) (QuoteJSONString s @ rest) = Parsed (JStr s, rest)"
  by (simp add: QuoteJSONString_def parse_chars_quote_units del: parse_chars.simps)

lemma parse_value_number:
  assumes "number_end rest"
  shows "parse_value (Suc n) (number_to_string i @ rest) = Parsed (JNum i, rest)"
proof -
  obtain c t where s: "number_to_string i = c # t" and c: "c = 0x2D \<or> is_digit c"
    using number_to_string_start [of i] by auto
  from c have "c \<noteq> 0x7B" "c \<noteq> 0x5B" "c \<noteq> 0x22" "c \<noteq> 0x74" "c \<noteq> 0x66" "c \<noteq> 0x6E"
    by (auto simp: is_digit_def)
  then have "parse_value (Suc n) (c # t @ rest) = parse_number (c # t @ rest)"
    by (simp add: js_def)
  with s parse_number_to_string [OF assms, of i] show ?thesis by simp
qed

subsection \<open>Arrays and objects\<close>

lemma number_end_line: "number_end (0x0A # t)" and number_end_comma: "number_end (0x2C # t)"
  by (simp_all add: number_end_def is_digit_def)

lemma join_map_Cons2:
  "join sep (map f (x # y # ys)) = f x @ sep @ join sep (map f (y # ys))"
  by simp

lemma join_start:
  assumes "xs \<noteq> []" and "\<And>x. \<exists>c t. f x = c # t \<and> P c"
  shows "\<exists>c t. join sep (map f xs) = c # t \<and> P c"
proof -
  from assms(1) obtain x ys where xs: "xs = x # ys" by (cases xs) auto
  from assms(2) obtain c t where "f x = c # t" "P c" by blast
  then show ?thesis unfolding xs by (cases ys) auto
qed

lemma parse_elements_lines:
  assumes "\<And>x. x \<in> set xs \<Longrightarrow> roundtrips x" and "xs \<noteq> []" and "size_list size xs < m"
  shows "parse_elements m
           (join (separator d) (map (serialize d) xs) @ 0x0A # indentation d' @ 0x5D # rest)
         = Parsed (xs, rest)"
  using assms
proof (induction xs arbitrary: m)
  case Nil
  then show ?case by simp
next
  case (Cons x xs)
  from Cons.prems(3) obtain m' where m: "m = Suc m'" and x: "size x < m'"
    by (cases m) auto
  from Cons.prems(1) have rx: "roundtrips x" by simp
  show ?case
  proof (cases xs)
    case Nil
    have "parse_value m' (serialize d x @ 0x0A # indentation d' @ 0x5D # rest)
          = Parsed (x, 0x0A # indentation d' @ 0x5D # rest)"
      using rx x number_end_line unfolding roundtrips_def by blast
    moreover have "skip_space (0x0A # indentation d' @ 0x5D # rest) = 0x5D # rest"
      by (rule skip_line) (simp add: is_json_space_def)
    ultimately show ?thesis
      unfolding m Nil by simp
  next
    case (Cons y ys)
    let ?more = "join (separator d) (map (serialize d) xs) @ 0x0A # indentation d' @ 0x5D # rest"
    from Cons Cons.prems(3) m have fuel: "size_list size xs < m'" by simp
    have ih: "parse_elements m' ?more = Parsed (xs, rest)"
      using Cons.IH [OF _ _ fuel] Cons.prems(1) Cons by simp
    obtain c t where start: "join (separator d) (map (serialize d) xs) = c # t" and c: "value_start c"
      using join_start [of xs "serialize d" value_start "separator d"] serialize_start Cons by blast
    have "parse_value m' (serialize d x @ 0x2C # 0x0A # indentation d @ ?more)
          = Parsed (x, 0x2C # 0x0A # indentation d @ ?more)"
      using rx x number_end_comma unfolding roundtrips_def by blast
    moreover have "skip_space (0x2C # 0x0A # indentation d @ ?more) = 0x2C # 0x0A # indentation d @ ?more"
      by (rule skip_space_stop) (simp add: is_json_space_def)
    moreover have "skip_space (0x0A # indentation d @ ?more) = ?more"
      using skip_line [of c d "t @ 0x0A # indentation d' @ 0x5D # rest"] c start
      by (simp add: value_start_not_space)
    ultimately have "parse_elements (Suc m') (serialize d x @ 0x2C # 0x0A # indentation d @ ?more)
          = Parsed (x # xs, rest)"
      using ih by simp
    then show ?thesis
      unfolding m Cons by (simp add: separator_def)
  qed
qed


lemma member_text_start: "\<exists>c t. member_text d kv = c # t \<and> c = 0x22"
  by (cases kv) (simp add: member_text_def QuoteJSONString_def)

lemma parse_members_lines:
  assumes "\<And>k v. (k, v) \<in> set kvs \<Longrightarrow> roundtrips v" and "kvs \<noteq> []"
    and "size_list (size_prod (\<lambda>x. 0) size) kvs < m"
  shows "parse_members m
           (join (separator d) (map (member_text d) kvs) @ 0x0A # indentation d' @ 0x7D # rest)
         = Parsed (kvs, rest)"
  using assms
proof (induction kvs arbitrary: m)
  case Nil
  then show ?case by simp
next
  case (Cons kv kvs)
  obtain k v where kv: "kv = (k, v)" by (cases kv)
  from Cons.prems(3) obtain m' where m: "m = Suc m'" and v: "size v < m'"
    unfolding kv by (cases m) auto
  from Cons.prems(1) [of k v] have rv: "roundtrips v" unfolding kv by simp
  have key: "parse_chars (quote_units k @ 0x22 # 0x3A # 0x20 # serialize d v @ after)
        = Parsed (k, 0x3A # 0x20 # serialize d v @ after)" for after
    by (rule parse_chars_quote_units)
  have colon: "skip_space (0x3A # t) = 0x3A # t" for t
    by (rule skip_space_stop) (simp add: is_json_space_def)
  have blank: "skip_space (0x20 # serialize d v @ after) = serialize d v @ after" for after
  proof -
    obtain c t where "serialize d v = c # t" "value_start c"
      using serialize_start by blast
    then show ?thesis
      by (simp add: skip_space_def is_json_space_def value_start_not_space [unfolded is_json_space_def])
  qed
  show ?case
  proof (cases kvs)
    case Nil
    have "parse_value m' (serialize d v @ 0x0A # indentation d' @ 0x7D # rest)
          = Parsed (v, 0x0A # indentation d' @ 0x7D # rest)"
      using rv v number_end_line unfolding roundtrips_def by blast
    moreover have "skip_space (0x0A # indentation d' @ 0x7D # rest) = 0x7D # rest"
      by (rule skip_line) (simp add: is_json_space_def)
    ultimately show ?thesis
      unfolding m Nil kv
      by (simp add: member_text_def QuoteJSONString_def key colon blank del: parse_chars.simps)
  next
    case (Cons kv' kvs')
    let ?more = "join (separator d) (map (member_text d) kvs) @ 0x0A # indentation d' @ 0x7D # rest"
    from Cons Cons.prems(3) m have fuel: "size_list (size_prod (\<lambda>x. 0) size) kvs < m'"
      unfolding kv by simp
    have rts: "\<And>k v. (k, v) \<in> set kvs \<Longrightarrow> roundtrips v"
      using Cons.prems(1) by auto
    have ne: "kvs \<noteq> []" using Cons by simp
    have ih: "parse_members m' ?more = Parsed (kvs, rest)"
      using Cons.IH [OF rts ne fuel] by simp
    obtain c t where start: "join (separator d) (map (member_text d) kvs) = c # t" and c: "c = 0x22"
      using join_start [of kvs "member_text d" "\<lambda>c. c = 0x22" "separator d"] member_text_start Cons
      by blast
    have "parse_value m' (serialize d v @ 0x2C # 0x0A # indentation d @ ?more)
          = Parsed (v, 0x2C # 0x0A # indentation d @ ?more)"
      using rv v number_end_comma unfolding roundtrips_def by blast
    moreover have "skip_space (0x2C # 0x0A # indentation d @ ?more) = 0x2C # 0x0A # indentation d @ ?more"
      by (rule skip_space_stop) (simp add: is_json_space_def)
    moreover have "skip_space (0x0A # indentation d @ ?more) = ?more"
      using skip_line [of c d "t @ 0x0A # indentation d' @ 0x7D # rest"] c start
      by (simp add: is_json_space_def)
    ultimately have "parse_members (Suc m')
          (0x22 # quote_units k @ 0x22 # 0x3A # 0x20 # serialize d v @ 0x2C # 0x0A # indentation d @ ?more)
          = Parsed ((k, v) # kvs, rest)"
      using ih by (simp add: key colon blank del: parse_chars.simps)
    moreover have "member_text d kv = 0x22 # quote_units k @ 0x22 # 0x3A # 0x20 # serialize d v"
      by (simp add: kv member_text_def QuoteJSONString_def)
    moreover have "join (separator d) (map (member_text d) (kv # kvs))
          = member_text d kv @ separator d @ join (separator d) (map (member_text d) kvs)"
      unfolding Cons by simp
    ultimately show ?thesis
      unfolding m by (simp add: separator_def kv)
  qed
qed

lemma obj_set_new: "k \<notin> fst ` set kvs \<Longrightarrow> obj_set kvs k v = kvs @ [(k, v)]"
  by (induction kvs k v rule: obj_set.induct) auto

lemma foldl_obj_set_distinct:
  "distinct (map fst (acc @ kvs)) \<Longrightarrow> foldl (\<lambda>obj (k, v). obj_set obj k v) acc kvs = acc @ kvs"
proof (induction kvs arbitrary: acc)
  case Nil
  then show ?case by simp
next
  case (Cons kv kvs)
  obtain k v where kv: "kv = (k, v)" by (cases kv)
  from Cons.prems have "k \<notin> fst ` set acc" unfolding kv by auto
  then have "obj_set acc k v = acc @ [(k, v)]" by (rule obj_set_new)
  moreover from Cons.prems have "distinct (map fst ((acc @ [(k, v)]) @ kvs))" unfolding kv by simp
  ultimately show ?case
    using Cons.IH [of "acc @ [(k, v)]"] unfolding kv by simp
qed

lemma member_text_lambda:
  "(\<lambda>(k, v). QuoteJSONString k @ 0x3A # 0x20 # serialize d v) = member_text d"
  by (simp add: member_text_def fun_eq_iff)

lemma serialize_array:
  "xs \<noteq> [] \<Longrightarrow> serialize d (JArr xs) @ rest =
     0x5B # 0x0A # indentation (Suc d) @
     join (separator (Suc d)) (map (serialize (Suc d)) xs) @ 0x0A # indentation d @ 0x5D # rest"
  by simp

lemma serialize_object:
  "kvs \<noteq> [] \<Longrightarrow> serialize d (JObj kvs) @ rest =
     0x7B # 0x0A # indentation (Suc d) @
     join (separator (Suc d)) (map (member_text (Suc d)) kvs) @ 0x0A # indentation d @ 0x7D # rest"
  by (simp add: member_text_lambda)

lemma roundtrips_array:
  assumes "\<And>x. x \<in> set xs \<Longrightarrow> roundtrips x"
  shows "roundtrips (JArr xs)"
  unfolding roundtrips_def
proof (intro allI impI)
  fix n d rest
  assume "size (JArr xs) < n"
  then obtain m where n: "n = Suc m" and m: "size_list size xs < m"
    by (cases n) auto
  show "parse_value n (serialize d (JArr xs) @ rest) = Parsed (JArr xs, rest)"
  proof (cases "xs = []")
    case True
    then show ?thesis
      unfolding n by (simp add: js_def skip_space_def is_json_space_def)
  next
    case False
    let ?lines = "join (separator (Suc d)) (map (serialize (Suc d)) xs) @ 0x0A # indentation d @ 0x5D # rest"
    obtain c t where start: "join (separator (Suc d)) (map (serialize (Suc d)) xs) = c # t"
      and c: "value_start c"
      using join_start [of xs "serialize (Suc d)" value_start "separator (Suc d)"] serialize_start False
      by blast
    have skip: "skip_space (0x0A # indentation (Suc d) @ ?lines) = c # t @ 0x0A # indentation d @ 0x5D # rest"
      using skip_line [of c "Suc d" "t @ 0x0A # indentation d @ 0x5D # rest"] c start
      by (simp add: value_start_not_space)
    have "parse_elements m (c # t @ 0x0A # indentation d @ 0x5D # rest) = Parsed (xs, rest)"
      using parse_elements_lines [OF assms False m, where d = "Suc d" and d' = d and rest = rest] start by simp
    with skip c have "parse_value (Suc m) (0x5B # 0x0A # indentation (Suc d) @ ?lines)
        = Parsed (JArr xs, rest)"
      by (simp add: value_start_not_close)
    then show ?thesis
      unfolding n serialize_array [OF False] .
  qed
qed

lemma roundtrips_object:
  assumes "\<And>k v. (k, v) \<in> set kvs \<Longrightarrow> roundtrips v" and "distinct (map fst kvs)"
  shows "roundtrips (JObj kvs)"
  unfolding roundtrips_def
proof (intro allI impI)
  fix n d rest
  assume "size (JObj kvs) < n"
  then obtain m where n: "n = Suc m" and m: "size_list (size_prod (\<lambda>x. 0) size) kvs < m"
    by (cases n) auto
  show "parse_value n (serialize d (JObj kvs) @ rest) = Parsed (JObj kvs, rest)"
  proof (cases "kvs = []")
    case True
    then show ?thesis
      unfolding n by (simp add: js_def skip_space_def is_json_space_def)
  next
    case False
    let ?lines = "join (separator (Suc d)) (map (member_text (Suc d)) kvs) @ 0x0A # indentation d @ 0x7D # rest"
    obtain c t where start: "join (separator (Suc d)) (map (member_text (Suc d)) kvs) = c # t"
      and c: "c = 0x22"
      using join_start [of kvs "member_text (Suc d)" "\<lambda>c. c = 0x22" "separator (Suc d)"]
        member_text_start False
      by blast
    have skip: "skip_space (0x0A # indentation (Suc d) @ ?lines) = c # t @ 0x0A # indentation d @ 0x7D # rest"
      using skip_line [of c "Suc d" "t @ 0x0A # indentation d @ 0x7D # rest"] c start
      by (simp add: is_json_space_def)
    have "parse_members m (c # t @ 0x0A # indentation d @ 0x7D # rest) = Parsed (kvs, rest)"
      using parse_members_lines [OF assms(1) False m, where d = "Suc d" and d' = d and rest = rest] start by simp
    moreover have "foldl (\<lambda>obj (k, v). obj_set obj k v) [] kvs = kvs"
      using foldl_obj_set_distinct [of "[]" kvs] assms(2) by simp
    ultimately have "parse_value (Suc m) (0x7B # 0x0A # indentation (Suc d) @ ?lines)
        = Parsed (JObj kvs, rest)"
      using skip c by simp
    then show ?thesis
      unfolding n serialize_object [OF False] .
  qed
qed

lemma distinct_keys_roundtrips: "distinct_keys v \<Longrightarrow> roundtrips v"
proof (induction v)
  case JNull
  show ?case unfolding roundtrips_def
  proof (intro allI impI)
    fix n :: nat and d rest assume "size (JNull) < n"
    then obtain m where "n = Suc m" by (cases n) auto
    then show "parse_value n (serialize d (JNull) @ rest) = Parsed (JNull, rest)"
      using parse_value_null [of m] by simp
  qed
next
  case (JBool b)
  show ?case unfolding roundtrips_def
  proof (intro allI impI)
    fix n :: nat and d rest assume "size (JBool b) < n"
    then obtain m where "n = Suc m" by (cases n) auto
    then show "parse_value n (serialize d (JBool b) @ rest) = Parsed (JBool b, rest)"
      using parse_value_bool [of m] by simp
  qed
next
  case (JNum i)
  show ?case unfolding roundtrips_def
  proof (intro allI impI)
    fix n :: nat and d rest assume "size (JNum i) < n" and e: "number_end rest"
    then obtain m where "n = Suc m" by (cases n) auto
    then show "parse_value n (serialize d (JNum i) @ rest) = Parsed (JNum i, rest)"
      using parse_value_number [OF e, of m i] by simp
  qed
next
  case (JStr s)
  show ?case unfolding roundtrips_def
  proof (intro allI impI)
    fix n :: nat and d rest assume "size (JStr s) < n"
    then obtain m where "n = Suc m" by (cases n) auto
    then show "parse_value n (serialize d (JStr s) @ rest) = Parsed (JStr s, rest)"
      using parse_value_string [of m] by simp
  qed
next
  case (JArr xs)
  show ?case
  proof (rule roundtrips_array)
    fix x assume "x \<in> set xs"
    with JArr show "roundtrips x" by (simp add: list_all_iff)
  qed
next
  case (JObj kvs)
  show ?case
  proof (rule roundtrips_object)
    fix k v assume "(k, v) \<in> set kvs"
    with JObj.prems have "distinct_keys v" by (auto simp: list_all_iff)
    with JObj.IH [of "(k, v)" v] \<open>(k, v) \<in> set kvs\<close> show "roundtrips v" by simp
  next
    from JObj.prems show "distinct (map fst kvs)" by simp
  qed
qed

lemma length_join: "sum_list (map length ys) \<le> length (join sep ys)"
  by (induction sep ys rule: join.induct) auto

lemma size_list_le_sum:
  "(\<And>x. x \<in> set xs \<Longrightarrow> f x < g x) \<Longrightarrow> size_list f xs \<le> sum_list (map g xs)"
  by (induction xs) (auto simp: Suc_le_eq add_less_le_mono)

lemma size_less_length: "size v < length (serialize d v)"
proof (induction v arbitrary: d)
  case (JArr xs)
  show ?case
  proof (cases "xs = []")
    case True
    then show ?thesis by (simp add: js_def)
  next
    case False
    have "size_list size xs \<le> sum_list (map (\<lambda>x. length (serialize (Suc d) x)) xs)"
      by (rule size_list_le_sum) (rule JArr.IH)
    also have "\<dots> \<le> length (join (separator (Suc d)) (map (serialize (Suc d)) xs))"
      using length_join [of "map (serialize (Suc d)) xs" "separator (Suc d)"]
      by (simp add: comp_def)
    finally show ?thesis using False by simp
  qed
next
  case (JObj kvs)
  show ?case
  proof (cases "kvs = []")
    case True
    then show ?thesis by (simp add: js_def)
  next
    case False
    have "size_list (size_prod (\<lambda>x. 0) size) kvs \<le> sum_list (map (\<lambda>kv. length (member_text (Suc d) kv)) kvs)"
    proof (rule size_list_le_sum)
      fix kv assume kv: "kv \<in> set kvs"
      obtain k v where [simp]: "kv = (k, v)" by (cases kv)
      from kv JObj.IH [of kv v "Suc d"] have "size v < length (serialize (Suc d) v)" by simp
      then show "size_prod (\<lambda>x. 0) size kv < length (member_text (Suc d) kv)"
        by (simp add: member_text_def)
    qed
    also have "\<dots> \<le> length (join (separator (Suc d)) (map (member_text (Suc d)) kvs))"
      using length_join [of "map (member_text (Suc d)) kvs" "separator (Suc d)"]
      by (simp add: comp_def)
    finally show ?thesis
      using False serialize_object [OF False, of d "[]"] by simp
  qed
qed (simp_all add: js_def QuoteJSONString_def number_to_string_def decimal_not_empty)

lemma parse_stringify:
  assumes "distinct_keys v"
  shows "JSON_parse (JSON_stringify v) = Parsed v"
proof -
  obtain c t where start: "serialize 0 v = c # t" and c: "value_start c"
    using serialize_start by blast
  then have skip: "skip_space (serialize 0 v) = serialize 0 v"
    by (simp add: skip_space_stop value_start_not_space)
  have "size v < 2 * length (serialize 0 v) + 2"
    using size_less_length [of v 0] by simp
  moreover have "number_end []" by (simp add: number_end_def)
  ultimately have "parse_value (2 * length (serialize 0 v) + 2) (serialize 0 v @ []) = Parsed (v, [])"
    using distinct_keys_roundtrips [OF assms] unfolding roundtrips_def by blast
  with skip show ?thesis
    by (simp add: JSON_parse_def JSON_stringify_def skip_space_def)
qed


section \<open>Properties of the analysis service\<close>

subsection \<open>Auxiliary facts\<close>

lemma trim_empty_iff: "trim s = [] \<longleftrightarrow> list_all is_white s"
  apply (simp add: trim_def dropWhile_eq_Nil_conv list_all_iff)
  by (metis dropWhile_eq_Nil_conv hd_dropWhile list.set_sel(1) set_dropWhileD)

lemma blank_text_iff: "(s = [] \<or> length (trim s) = 0) \<longleftrightarrow> list_all is_white s"
  by (auto simp: trim_empty_iff)

lemma upload_single_accepts:
  "originalname file \<noteq> [] \<Longrightarrow> mimetype file = js ''application/pdf'' \<Longrightarrow>
   size_of file < fileSize_limit \<Longrightarrow> upload_single (Some file) = Inr (Some file)"
  by (simp add: upload_single_def fileFilter_def)

lemma map_of_obj_set_same: "map_of (obj_set kvs k v) k = Some v"
  by (induction kvs k v rule: obj_set.induct) auto

lemma map_of_obj_set_other: "k' \<noteq> k \<Longrightarrow> map_of (obj_set kvs k v) k' = map_of kvs k'"
  by (induction kvs k v rule: obj_set.induct) auto

lemma get_prop_with_metadata: "get_prop (with_metadata a m) (js ''metadata'') = Some m"
  by (simp add: with_metadata_def map_of_obj_set_same)

lemma map_of_index_keys:
  assumes "k \<noteq> []" "hd k < 48 \<or> 57 < hd k"
  shows "map_of (zip (map decimal ns) vs) k = None"
proof -
  have "k \<notin> set (map decimal ns)"
  proof
    assume "k \<in> set (map decimal ns)"
    then obtain n where "k = decimal n" by auto
    with assms(1) have "hd k \<in> set (decimal n)" by simp
    from decimal_all_digits [OF this] have "48 \<le> hd k \<and> hd k \<le> 57"
      by (simp add: is_digit_def)
    with assms(2) show False by auto
  qed
  then show ?thesis
    by (auto simp: map_of_eq_None_iff dest: set_zip_leftD)
qed

lemma analysis_fields_with_metadata:
  "is_analysis_fields (with_metadata analysis m) = is_analysis_fields analysis"
proof -
  have keys: "js ''executiveSummary'' \<noteq> js ''metadata''" "js ''keyRequirements'' \<noteq> js ''metadata''"
    "js ''pricingOverview'' \<noteq> js ''metadata''" "js ''recommendedNextSteps'' \<noteq> js ''metadata''"
    by (simp_all add: js_def)
  have idx: "map_of (zip (map decimal ns) vs) (js ''executiveSummary'') = None" for ns and vs :: "json list"
    by (rule map_of_index_keys) (simp_all add: js_def)
  have obj: "is_analysis_fields (JObj (obj_set kvs (js ''metadata'') m)) = is_analysis_fields (JObj kvs)" for kvs
    by (simp add: is_analysis_fields_def map_of_obj_set_other keys)
  have indexed: "\<not> is_analysis_fields (JObj (zip (map decimal ns) vs))" for ns vs
    by (simp add: is_analysis_fields_def idx)
  have empty: "\<not> is_analysis_fields (JObj [])"
    by (simp add: is_analysis_fields_def)
  show ?thesis
  proof (cases analysis)
    case (JObj kvs)
    then show ?thesis by (simp add: with_metadata_def obj)
  next
    case (JArr xs)
    then have "is_analysis_fields (with_metadata analysis m) = False"
      by (simp only: with_metadata_def spread.simps obj indexed)
    moreover from JArr have "\<not> is_analysis_fields analysis" by (simp add: is_analysis_fields_def)
    ultimately show ?thesis by simp
  next
    case (JStr s)
    then have "is_analysis_fields (with_metadata analysis m) = False"
      by (simp only: with_metadata_def spread.simps obj indexed)
    moreover from JStr have "\<not> is_analysis_fields analysis" by (simp add: is_analysis_fields_def)
    ultimately show ?thesis by simp
  next
    case JNull
    then have "is_analysis_fields (with_metadata analysis m) = False"
      by (simp only: with_metadata_def spread.simps obj empty)
    moreover from JNull have "\<not> is_analysis_fields analysis" by (simp add: is_analysis_fields_def)
    ultimately show ?thesis by simp
  next
    case (JBool b)
    then have "is_analysis_fields (with_metadata analysis m) = False"
      by (simp only: with_metadata_def spread.simps obj empty)
    moreover from JBool have "\<not> is_analysis_fields analysis" by (simp add: is_analysis_fields_def)
    ultimately show ?thesis by simp
  next
    case (JNum n)
    then have "is_analysis_fields (with_metadata analysis m) = False"
      by (simp only: with_metadata_def spread.simps obj empty)
    moreover from JNum have "\<not> is_analysis_fields analysis" by (simp add: is_analysis_fields_def)
    ultimately show ?thesis by simp
  qed
qed

lemma sample_pdf_accepted:
  "originalname sample_pdf \<noteq> []" "mimetype sample_pdf = js ''application/pdf''"
  "size_of sample_pdf < fileSize_limit"
  by (simp_all add: sample_pdf_def size_of_def fileSize_limit_def js_def)

lemma sample_texts:
  "list_all is_white (js ''  '' @ nl)" "js '' '' \<noteq> []" "list_all is_white (js '' '')"
  "\<not> list_all is_white (js ''Proposal for services'')"
  by (simp_all add: js_def nl_def is_white_def)

subsection \<open>Blank extracted text\<close>

text \<open>
  Claim C4, as the handler has it: when the text extracted from a PDF that the upload
  stage accepts (a file part with a name, declared \<open>application/pdf\<close>, smaller than
  10 MiB) is empty or consists of white space only, the route answers 400 with the body
  \<open>{error: 'Could not extract text from PDF'}\<close>, after the one call to the text
  extractor and without any call to the language model.
\<close>

theorem blank_text_rejected:
  assumes "originalname file \<noteq> []" and "mimetype file = js ''application/pdf''"
    and "size_of file < fileSize_limit"
    and "pdfParse e (buffer file) = Inr extractedText"
    and "list_all is_white extractedText"
  shows "analyze_proposal_route e (Some file) =
           (\<lparr>status = 400, body = JObj [(js ''error'', JStr (js ''Could not extract text from PDF''))]\<rparr>,
            [PdfParseCall (buffer file)])
         \<and> \<not> list_ex is_model_call (snd (analyze_proposal_route e (Some file)))"
  using assms blank_text_iff [of extractedText]
  by (simp add: analyze_proposal_route_def upload_single_accepts analyze_handler_def json_error_def)

theorem blank_text_rejected_witness:
  "list_all is_white (js ''  '' @ nl) \<and>
   analyze_proposal_route (sample_env (js ''  '' @ nl) None no_reply) (Some sample_pdf) =
     (\<lparr>status = 400, body = JObj [(js ''error'', JStr (js ''Could not extract text from PDF''))]\<rparr>,
      [PdfParseCall (buffer sample_pdf)])"
proof -
  have p: "pdfParse (sample_env (js ''  '' @ nl) None no_reply) (buffer sample_pdf) = Inr (js ''  '' @ nl)"
    by (simp add: sample_env_def)
  from blank_text_rejected [OF sample_pdf_accepted p sample_texts(1)] sample_texts(1)
  show ?thesis by simp
qed

text \<open>
  The body of that answer is the one property \<open>error\<close>, and it holds the message,
  not the identifier \<open>EMPTY_OR_IMAGE_ONLY_PDF\<close>.
\<close>

theorem blank_text_error_code_counterexample:
  "list_all is_white (js '' '') \<and>
   fst (analyze_proposal_route (sample_env (js '' '') None no_reply) (Some sample_pdf)) =
     \<lparr>status = 400, body = JObj [(js ''error'', JStr (js ''Could not extract text from PDF''))]\<rparr> \<and>
   get_prop (body (fst (analyze_proposal_route (sample_env (js '' '') None no_reply) (Some sample_pdf)))) (js ''error'')
     \<noteq> Some (JStr (js ''EMPTY_OR_IMAGE_ONLY_PDF''))"
proof -
  have differ: "js ''Could not extract text from PDF'' \<noteq> js ''EMPTY_OR_IMAGE_ONLY_PDF''"
    by (simp add: js_def)
  have p: "pdfParse (sample_env (js '' '') None no_reply) (buffer sample_pdf) = Inr (js '' '')"
    by (simp add: sample_env_def)
  have "fst (analyze_proposal_route (sample_env (js '' '') None no_reply) (Some sample_pdf)) =
     \<lparr>status = 400, body = JObj [(js ''error'', JStr (js ''Could not extract text from PDF''))]\<rparr>"
    using sample_pdf_accepted p sample_texts(3) blank_text_iff [of "js '' ''"]
    by (simp add: analyze_proposal_route_def upload_single_accepts analyze_handler_def json_error_def)
  with sample_texts(3) differ show ?thesis by simp
qed

subsection \<open>Oversized uploads\<close>

text \<open>
  What holds of every upload larger than 10 MiB: it never reaches the handler, so the
  text extractor is not called. When the part has a name, the answer is 400 with
  \<open>{error: 'File too large. Maximum size is 10MB.'}\<close> for the declared type
  \<open>application/pdf\<close>, and for any other declared type the error of \<open>fileFilter\<close>
  comes first and falls through the error-handling middleware.
\<close>

lemma oversized_upload_rejected:
  assumes "size_of file > fileSize_limit"
  shows "snd (analyze_proposal_route e (Some file)) = []
         \<and> \<not> list_ex is_extraction (snd (analyze_proposal_route e (Some file)))
         \<and> (originalname file \<noteq> [] \<longrightarrow> mimetype file = js ''application/pdf'' \<longrightarrow>
              fst (analyze_proposal_route e (Some file)) =
                \<lparr>status = 400, body = JObj [(js ''error'', JStr (js ''File too large. Maximum size is 10MB.''))]\<rparr>)
         \<and> (originalname file \<noteq> [] \<longrightarrow> mimetype file \<noteq> js ''application/pdf'' \<longrightarrow>
              fst (analyze_proposal_route e (Some file)) =
                \<lparr>status = 500, body = JObj [(js ''error'', JStr (js ''Internal server error''))]\<rparr>)
         \<and> (originalname file = [] \<longrightarrow>
              fst (analyze_proposal_route e (Some file)) =
                \<lparr>status = 400, body = JObj [(js ''error'', JStr (js ''No PDF file uploaded''))]\<rparr>)"
  using assms
  by (simp add: analyze_proposal_route_def upload_single_def fileFilter_def error_middleware_def
      analyze_handler_def json_error_def)

lemma oversized_pdf_rejected:
  "size_of oversized_pdf > fileSize_limit \<and>
   analyze_proposal_route (sample_env (js ''text'') None no_reply) (Some oversized_pdf) =
     (\<lparr>status = 400, body = JObj [(js ''error'', JStr (js ''File too large. Maximum size is 10MB.''))]\<rparr>, [])"
proof -
  have s: "size_of oversized_pdf > fileSize_limit"
    by (simp add: oversized_pdf_def size_of_def fileSize_limit_def)
  have m: "mimetype oversized_pdf = js ''application/pdf''" "originalname oversized_pdf \<noteq> []"
    by (simp_all add: oversized_pdf_def js_def)
  from oversized_upload_rejected [OF s, of "sample_env (js ''text'') None no_reply"] s m show ?thesis
    by (simp add: prod_eq_iff)
qed

text \<open>
  Claim C6 asks 400 for every upload larger than 10 MiB. An upload of 10485761 bytes
  declared as \<open>text/plain\<close> is answered 500: \<open>fileFilter\<close> rejects it with its own
  error, which is not a \<open>MulterError\<close>, and the error-handling middleware answers
  every such error with \<open>Internal server error\<close>. The extractor is not called.
\<close>

theorem oversized_text_upload_internal_error:
  "size_of oversized_text_file > fileSize_limit \<and>
   analyze_proposal_route (sample_env (js ''text'') None no_reply) (Some oversized_text_file) =
     (\<lparr>status = 500, body = JObj [(js ''error'', JStr (js ''Internal server error''))]\<rparr>, [])"
  by (simp add: analyze_proposal_route_def upload_single_def fileFilter_def error_middleware_def
      json_error_def oversized_text_file_def size_of_def fileSize_limit_def js_def)

subsection \<open>No model client\<close>

text \<open>
  Claim C7, as the handler has it: for a PDF that the upload stage accepts and whose
  text is not blank, when no OpenAI client was created the route answers 503 with the
  properties \<open>error\<close>, \<open>message\<close> and \<open>suggestion\<close> (the suggestion names the demo
  mode of the frontend), and the language model is not called.
\<close>

theorem not_configured_rejected:
  assumes "originalname file \<noteq> []" and "mimetype file = js ''application/pdf''"
    and "size_of file < fileSize_limit"
    and "pdfParse e (buffer file) = Inr extractedText"
    and "\<not> list_all is_white extractedText"
    and "openai e = None"
  shows "analyze_proposal_route e (Some file) =
           (\<lparr>status = 503,
             body = JObj
               [(js ''error'', JStr (js ''AI service configuration error'')),
                (js ''message'', JStr (js ''OpenAI API key not configured. Please set OPENAI_API_KEY in environment variables.'')),
                (js ''suggestion'', JStr (js ''Try the demo mode in the frontend for a sample analysis.''))]\<rparr>,
            [PdfParseCall (buffer file)])
         \<and> \<not> list_ex is_model_call (snd (analyze_proposal_route e (Some file)))"
  using assms blank_text_iff [of extractedText]
  by (simp add: analyze_proposal_route_def upload_single_accepts analyze_handler_def
      not_configured_response_def)

theorem not_configured_rejected_witness:
  "\<not> list_all is_white (js ''Proposal for services'') \<and>
   status (fst (analyze_proposal_route (sample_env (js ''Proposal for services'') None no_reply) (Some sample_pdf))) = 503 \<and>
   snd (analyze_proposal_route (sample_env (js ''Proposal for services'') None no_reply) (Some sample_pdf)) =
     [PdfParseCall (buffer sample_pdf)]"
proof -
  have p: "pdfParse (sample_env (js ''Proposal for services'') None no_reply) (buffer sample_pdf)
      = Inr (js ''Proposal for services'')"
    by (simp add: sample_env_def)
  have c: "openai (sample_env (js ''Proposal for services'') None no_reply) = None"
    by (simp add: sample_env_def)
  from not_configured_rejected [OF sample_pdf_accepted p sample_texts(4) c] sample_texts(4)
  show ?thesis by simp
qed

text \<open>
  The 503 answer has the three properties and no other; its \<open>error\<close> property is
  the message \<open>AI service configuration error\<close>, not the identifier
  \<open>AI_NOT_CONFIGURED\<close>.
\<close>

theorem not_configured_error_code_counterexample:
  "\<not> list_all is_white (js ''Proposal for services'') \<and>
   openai (sample_env (js ''Proposal for services'') None no_reply) = None \<and>
   fst (analyze_proposal_route (sample_env (js ''Proposal for services'') None no_reply) (Some sample_pdf)) =
     \<lparr>status = 503,
      body = JObj
        [(js ''error'', JStr (js ''AI service configuration error'')),
         (js ''message'', JStr (js ''OpenAI API key not configured. Please set OPENAI_API_KEY in environment variables.'')),
         (js ''suggestion'', JStr (js ''Try the demo mode in the frontend for a sample analysis.''))]\<rparr> \<and>
   get_prop (body (fst (analyze_proposal_route (sample_env (js ''Proposal for services'') None no_reply) (Some sample_pdf)))) (js ''error'')
     \<noteq> Some (JStr (js ''AI_NOT_CONFIGURED''))"
proof -
  have differ: "js ''AI service configuration error'' \<noteq> js ''AI_NOT_CONFIGURED''"
    by (simp add: js_def)
  have p: "pdfParse (sample_env (js ''Proposal for services'') None no_reply) (buffer sample_pdf)
      = Inr (js ''Proposal for services'')"
    and c: "openai (sample_env (js ''Proposal for services'') None no_reply) = None"
    by (simp_all add: sample_env_def)
  have "fst (analyze_proposal_route (sample_env (js ''Proposal for services'') None no_reply) (Some sample_pdf)) =
     \<lparr>status = 503,
      body = JObj
        [(js ''error'', JStr (js ''AI service configuration error'')),
         (js ''message'', JStr (js ''OpenAI API key not configured. Please set OPENAI_API_KEY in environment variables.'')),
         (js ''suggestion'', JStr (js ''Try the demo mode in the frontend for a sample analysis.''))]\<rparr>"
    using sample_pdf_accepted p c sample_texts(4) blank_text_iff [of "js ''Proposal for services''"]
    by (simp add: analyze_proposal_route_def upload_single_accepts analyze_handler_def
        not_configured_response_def)
  with sample_texts(4) differ c show ?thesis by simp
qed

subsection \<open>A reply that parses\<close>

lemma sample_reply_parses: "JSON_parse (trim sample_reply) = Parsed sample_analysis"
  by code_simp

lemma route_with_reply:
  assumes "originalname file \<noteq> []" and "mimetype file = js ''application/pdf''"
    and "size_of file < fileSize_limit"
    and "pdfParse e (buffer file) = Inr extractedText"
    and "\<not> list_all is_white extractedText"
    and "openai e = Some create"
    and "create (prompt extractedText) = Inr (Some content)"
  shows "analyze_proposal_route e (Some file) =
     (case parseJSON e (trim content) of
        Inl parseError \<Rightarrow>
          \<lparr>status = 500, body = JObj [(js ''error'', JStr (js ''Failed to process AI response''))]\<rparr>
      | Inr analysis \<Rightarrow>
          \<lparr>status = 200, body = with_metadata analysis (metadata_of e file extractedText)\<rparr>,
      [PdfParseCall (buffer file), ChatCompletionCall (prompt extractedText)])"
  using assms blank_text_iff [of extractedText]
  by (simp add: analyze_proposal_route_def upload_single_accepts analyze_handler_def json_error_def
      split: sum.splits)

lemma sample_route:
  assumes "\<not> list_all is_white text"
  shows "analyze_proposal_route (sample_env text (replying content) parsed) (Some sample_pdf) =
     (case parsed of
        Inl parseError \<Rightarrow>
          \<lparr>status = 500, body = JObj [(js ''error'', JStr (js ''Failed to process AI response''))]\<rparr>
      | Inr analysis \<Rightarrow>
          \<lparr>status = 200,
           body = with_metadata analysis
             (metadata_of (sample_env text (replying content) parsed) sample_pdf text)\<rparr>,
      [PdfParseCall (buffer sample_pdf), ChatCompletionCall (prompt text)])"
proof -
  have p: "pdfParse (sample_env text (replying content) parsed) (buffer sample_pdf) = Inr text"
    and c: "openai (sample_env text (replying content) parsed) = Some (\<lambda>prompt. Inr (Some content))"
    and j: "parseJSON (sample_env text (replying content) parsed) (trim content) = parsed"
    by (simp_all add: sample_env_def replying_def)
  have r: "(\<lambda>prompt. Inr (Some content) :: js_error + jsstring option) (prompt text) = Inr (Some content)"
    by simp
  from route_with_reply [OF sample_pdf_accepted p assms c r] j show ?thesis by simp
qed

lemma sample_metadata:
  "metadata_of (sample_env (js ''Proposal for services'') client parsed) sample_pdf
     (js ''Proposal for services'') =
   JObj [(js ''fileName'', JStr (js ''proposal.pdf'')),
         (js ''fileSize'', JNum 4),
         (js ''processedAt'', JStr (js ''2025-06-01T12:00:00.000Z'')),
         (js ''textLength'', JNum 21)]"
  by (simp add: metadata_of_def sample_env_def sample_pdf_def size_of_def js_def)

text \<open>
  Claim C1, as the handler has it: for a PDF that the upload stage accepts (a file part
  with a name, declared \<open>application/pdf\<close>, smaller than 10 MiB) whose extracted text
  has a character that is not white space, when a model client is configured and the
  trimmed content of its reply parses as JSON, the route answers 200 after one call to
  the extractor and one to the model. The body is the own properties of the parsed value
  with \<open>metadata\<close> set to the original file name, the byte size, the server's
  timestamp and the length of the extracted text. The body has the shape of an
  \<open>AnalysisResult\<close> exactly when the parsed value has the four analysis fields with
  their types: the handler does not check.
\<close>

theorem analysis_succeeds:
  assumes "originalname file \<noteq> []" and "mimetype file = js ''application/pdf''"
    and "size_of file < fileSize_limit"
    and "pdfParse e (buffer file) = Inr extractedText"
    and "\<not> list_all is_white extractedText"
    and "openai e = Some create"
    and "create (prompt extractedText) = Inr (Some content)"
    and "parseJSON e (trim content) = Inr analysis"
  shows "analyze_proposal_route e (Some file) =
           (\<lparr>status = 200, body = with_metadata analysis (metadata_of e file extractedText)\<rparr>,
            [PdfParseCall (buffer file), ChatCompletionCall (prompt extractedText)])
         \<and> get_prop (body (fst (analyze_proposal_route e (Some file)))) (js ''metadata'') =
             Some (JObj
               [(js ''fileName'', JStr (originalname file)),
                (js ''fileSize'', JNum (int (size_of file))),
                (js ''processedAt'', JStr (toISOString_now e)),
                (js ''textLength'', JNum (int (length extractedText)))])
         \<and> (is_AnalysisResult (body (fst (analyze_proposal_route e (Some file))))
              \<longleftrightarrow> is_analysis_fields analysis)"
proof -
  have route: "analyze_proposal_route e (Some file) =
           (\<lparr>status = 200, body = with_metadata analysis (metadata_of e file extractedText)\<rparr>,
            [PdfParseCall (buffer file), ChatCompletionCall (prompt extractedText)])"
    using route_with_reply [OF assms(1-7)] assms(8) by simp
  have meta: "is_metadata (Some (metadata_of e file extractedText))"
    by (simp add: is_metadata_def metadata_of_def js_def)
  show ?thesis
    unfolding route
    by (simp add: get_prop_with_metadata is_AnalysisResult_def analysis_fields_with_metadata meta)
      (simp add: metadata_of_def)
qed

theorem analysis_succeeds_witness:
  "\<not> list_all is_white (js ''Proposal for services'') \<and>
   JSON_parse (trim sample_reply) = Parsed sample_analysis \<and>
   status (fst (analyze_proposal_route
     (sample_env (js ''Proposal for services'') (replying sample_reply) (Inr sample_analysis))
     (Some sample_pdf))) = 200 \<and>
   is_AnalysisResult (body (fst (analyze_proposal_route
     (sample_env (js ''Proposal for services'') (replying sample_reply) (Inr sample_analysis))
     (Some sample_pdf)))) \<and>
   get_prop (body (fst (analyze_proposal_route
     (sample_env (js ''Proposal for services'') (replying sample_reply) (Inr sample_analysis))
     (Some sample_pdf)))) (js ''metadata'') =
     Some (JObj
       [(js ''fileName'', JStr (js ''proposal.pdf'')),
        (js ''fileSize'', JNum 4),
        (js ''processedAt'', JStr (js ''2025-06-01T12:00:00.000Z'')),
        (js ''textLength'', JNum 21)])"
proof -
  let ?e = "sample_env (js ''Proposal for services'') (replying sample_reply) (Inr sample_analysis)"
  have p: "pdfParse ?e (buffer sample_pdf) = Inr (js ''Proposal for services'')"
    by (simp add: sample_env_def)
  have c: "openai ?e = Some (\<lambda>prompt. Inr (Some sample_reply))"
    by (simp add: sample_env_def replying_def)
  have r: "(\<lambda>prompt. Inr (Some sample_reply) :: js_error + jsstring option) (prompt (js ''Proposal for services''))
      = Inr (Some sample_reply)"
    by simp
  have j: "parseJSON ?e (trim sample_reply) = Inr sample_analysis"
    by (simp add: sample_env_def)
  have f: "is_analysis_fields sample_analysis"
    by (simp add: sample_analysis_def is_analysis_fields_def is_pricingOverview_def js_def)
  have n: "originalname sample_pdf = js ''proposal.pdf''" "size_of sample_pdf = 4"
    "toISOString_now ?e = js ''2025-06-01T12:00:00.000Z''" "length (js ''Proposal for services'') = 21"
    by (simp_all add: sample_pdf_def size_of_def sample_env_def js_def)
  note t = analysis_succeeds [OF sample_pdf_accepted p sample_texts(4) c r j]
  from t have route: "analyze_proposal_route ?e (Some sample_pdf) =
      (\<lparr>status = 200,
         body = with_metadata sample_analysis (metadata_of ?e sample_pdf (js ''Proposal for services''))\<rparr>,
       [PdfParseCall (buffer sample_pdf), ChatCompletionCall (prompt (js ''Proposal for services''))])"
    by (rule conjunct1)
  from t f have shape: "is_AnalysisResult (body (fst (analyze_proposal_route ?e (Some sample_pdf))))"
    by blast
  from t have "get_prop (body (fst (analyze_proposal_route ?e (Some sample_pdf)))) (js ''metadata'') =
     Some (JObj
       [(js ''fileName'', JStr (originalname sample_pdf)),
        (js ''fileSize'', JNum (int (size_of sample_pdf))),
        (js ''processedAt'', JStr (toISOString_now ?e)),
        (js ''textLength'', JNum (int (length (js ''Proposal for services''))))])"
    by blast
  with n have meta: "get_prop (body (fst (analyze_proposal_route ?e (Some sample_pdf)))) (js ''metadata'') =
     Some (JObj
       [(js ''fileName'', JStr (js ''proposal.pdf'')),
        (js ''fileSize'', JNum 4),
        (js ''processedAt'', JStr (js ''2025-06-01T12:00:00.000Z'')),
        (js ''textLength'', JNum 21)])"
    by simp
  have "status (fst (analyze_proposal_route ?e (Some sample_pdf))) = 200"
    unfolding route by simp
  with sample_texts(4) sample_reply_parses shape meta show ?thesis by blast
qed

text \<open>
  Extracted text that is not empty but blank is answered 400; the reply \<open>null\<close>
  parses, so it is answered 200 with a body that has no analysis field; and a PDF of
  exactly 10 MiB is answered 400 by the upload stage.
\<close>

theorem analysis_succeeds_counterexample:
  "js '' '' \<noteq> [] \<and>
   JSON_parse (trim sample_reply) = Parsed sample_analysis \<and>
   status (fst (analyze_proposal_route
     (sample_env (js '' '') (replying sample_reply) (Inr sample_analysis)) (Some sample_pdf))) = 400 \<and>
   JSON_parse (trim (js ''null'')) = Parsed JNull \<and>
   status (fst (analyze_proposal_route
     (sample_env (js ''Proposal for services'') (replying (js ''null'')) (Inr JNull))
     (Some sample_pdf))) = 200 \<and>
   \<not> is_AnalysisResult (body (fst (analyze_proposal_route
     (sample_env (js ''Proposal for services'') (replying (js ''null'')) (Inr JNull))
     (Some sample_pdf)))) \<and>
   size_of boundary_pdf = 10 * 1024 * 1024 \<and>
   fst (analyze_proposal_route
     (sample_env (js ''Proposal for services'') (replying sample_reply) (Inr sample_analysis))
     (Some boundary_pdf)) =
     \<lparr>status = 400, body = JObj [(js ''error'', JStr (js ''File too large. Maximum size is 10MB.''))]\<rparr>"
proof -
  have null: "JSON_parse (trim (js ''null'')) = Parsed JNull"
    by code_simp
  have p: "pdfParse (sample_env (js '' '') (replying sample_reply) (Inr sample_analysis)) (buffer sample_pdf)
      = Inr (js '' '')"
    by (simp add: sample_env_def)
  have a: "status (fst (analyze_proposal_route
     (sample_env (js '' '') (replying sample_reply) (Inr sample_analysis)) (Some sample_pdf))) = 400"
    using sample_pdf_accepted p sample_texts(3) blank_text_iff [of "js '' ''"]
    by (simp add: analyze_proposal_route_def upload_single_accepts analyze_handler_def json_error_def)
  have b: "fst (analyze_proposal_route
     (sample_env (js ''Proposal for services'') (replying (js ''null'')) (Inr JNull)) (Some sample_pdf)) =
     \<lparr>status = 200, body = with_metadata JNull
        (metadata_of (sample_env (js ''Proposal for services'') (replying (js ''null'')) (Inr JNull))
           sample_pdf (js ''Proposal for services''))\<rparr>"
    by (simp add: sample_route [OF sample_texts(4)])
  have c: "\<not> is_analysis_fields JNull"
    by (simp add: is_analysis_fields_def)
  have s: "size_of boundary_pdf = 10 * 1024 * 1024"
    by (simp add: boundary_pdf_def size_of_def)
  have d: "fst (analyze_proposal_route
     (sample_env (js ''Proposal for services'') (replying sample_reply) (Inr sample_analysis))
     (Some boundary_pdf)) =
     \<lparr>status = 400, body = JObj [(js ''error'', JStr (js ''File too large. Maximum size is 10MB.''))]\<rparr>"
    by (simp add: analyze_proposal_route_def upload_single_def fileFilter_def error_middleware_def
        json_error_def boundary_pdf_def size_of_def fileSize_limit_def js_def)
  from a b c d s null sample_reply_parses sample_texts(2) show ?thesis
    by (simp add: is_AnalysisResult_def analysis_fields_with_metadata)
qed

subsection \<open>A reply that does not parse\<close>

text \<open>
  Claim C8, as the handler has it: for a PDF that the upload stage accepts, with text
  that is not blank and a reply from the model, the answer is decided by
  \<open>JSON.parse\<close> alone. When it throws on the trimmed content of the reply, the route
  answers 500 with the body \<open>{error: 'Failed to process AI response'}\<close> and nothing of
  the reply; when it returns a value, whatever its shape, the route answers 200 with the
  properties of that value and the metadata.
\<close>

theorem reply_rejected_only_when_unparseable:
  assumes "originalname file \<noteq> []" and "mimetype file = js ''application/pdf''"
    and "size_of file < fileSize_limit"
    and "pdfParse e (buffer file) = Inr extractedText"
    and "\<not> list_all is_white extractedText"
    and "openai e = Some create"
    and "create (prompt extractedText) = Inr (Some content)"
  shows "(\<forall>parseError. parseJSON e (trim content) = Inl parseError \<longrightarrow>
            analyze_proposal_route e (Some file) =
              (\<lparr>status = 500, body = JObj [(js ''error'', JStr (js ''Failed to process AI response''))]\<rparr>,
               [PdfParseCall (buffer file), ChatCompletionCall (prompt extractedText)]))
         \<and> (\<forall>analysis. parseJSON e (trim content) = Inr analysis \<longrightarrow>
            analyze_proposal_route e (Some file) =
              (\<lparr>status = 200, body = with_metadata analysis (metadata_of e file extractedText)\<rparr>,
               [PdfParseCall (buffer file), ChatCompletionCall (prompt extractedText)]))"
  using route_with_reply [OF assms] by simp

theorem reply_rejected_only_when_unparseable_witness:
  "\<not> list_all is_white (js ''Proposal for services'') \<and>
   JSON_parse (trim (js ''Sorry, I cannot help.'')) = SyntaxError \<and>
   fst (analyze_proposal_route
     (sample_env (js ''Proposal for services'') (replying (js ''Sorry, I cannot help.''))
        (Inl (Error (js ''SyntaxError''))))
     (Some sample_pdf)) =
     \<lparr>status = 500, body = JObj [(js ''error'', JStr (js ''Failed to process AI response''))]\<rparr> \<and>
   JSON_parse (trim sample_reply) = Parsed sample_analysis \<and>
   fst (analyze_proposal_route
     (sample_env (js ''Proposal for services'') (replying sample_reply) (Inr sample_analysis))
     (Some sample_pdf)) =
     \<lparr>status = 200,
      body = with_metadata sample_analysis
        (JObj [(js ''fileName'', JStr (js ''proposal.pdf'')),
               (js ''fileSize'', JNum 4),
               (js ''processedAt'', JStr (js ''2025-06-01T12:00:00.000Z'')),
               (js ''textLength'', JNum 21)])\<rparr>"
proof -
  let ?e = "sample_env (js ''Proposal for services'') (replying (js ''Sorry, I cannot help.''))
        (Inl (Error (js ''SyntaxError'')))"
  let ?g = "sample_env (js ''Proposal for services'') (replying sample_reply) (Inr sample_analysis)"
  have refusal: "JSON_parse (trim (js ''Sorry, I cannot help.'')) = SyntaxError"
    by code_simp
  have p: "pdfParse ?e (buffer sample_pdf) = Inr (js ''Proposal for services'')"
    and c: "openai ?e = Some (\<lambda>prompt. Inr (Some (js ''Sorry, I cannot help.'')))"
    and j: "parseJSON ?e (trim (js ''Sorry, I cannot help.'')) = Inl (Error (js ''SyntaxError''))"
    by (simp_all add: sample_env_def replying_def)
  have r: "(\<lambda>prompt. Inr (Some (js ''Sorry, I cannot help.'')) :: js_error + jsstring option)
      (prompt (js ''Proposal for services'')) = Inr (Some (js ''Sorry, I cannot help.''))"
    by simp
  have p': "pdfParse ?g (buffer sample_pdf) = Inr (js ''Proposal for services'')"
    and c': "openai ?g = Some (\<lambda>prompt. Inr (Some sample_reply))"
    and j': "parseJSON ?g (trim sample_reply) = Inr sample_analysis"
    by (simp_all add: sample_env_def replying_def)
  have r': "(\<lambda>prompt. Inr (Some sample_reply) :: js_error + jsstring option)
      (prompt (js ''Proposal for services'')) = Inr (Some sample_reply)"
    by simp
  from reply_rejected_only_when_unparseable [OF sample_pdf_accepted p sample_texts(4) c r] j
  have a: "analyze_proposal_route ?e (Some sample_pdf) =
      (\<lparr>status = 500, body = JObj [(js ''error'', JStr (js ''Failed to process AI response''))]\<rparr>,
       [PdfParseCall (buffer sample_pdf), ChatCompletionCall (prompt (js ''Proposal for services''))])"
    by blast
  from reply_rejected_only_when_unparseable [OF sample_pdf_accepted p' sample_texts(4) c' r'] j'
  have b: "analyze_proposal_route ?g (Some sample_pdf) =
      (\<lparr>status = 200,
         body = with_metadata sample_analysis (metadata_of ?g sample_pdf (js ''Proposal for services''))\<rparr>,
       [PdfParseCall (buffer sample_pdf), ChatCompletionCall (prompt (js ''Proposal for services''))])"
    by blast
  from a b refusal sample_reply_parses sample_texts(4) show ?thesis
    by (simp add: sample_metadata)
qed

text \<open>
  A reply that parses but has none of the analysis fields is not rejected: it is
  answered 200, its content forwarded with the metadata added.
\<close>

theorem unvalidated_reply_counterexample:
  \<open>JSON_parse (trim (js ''{"summary": "n/a"}'')) = Parsed (JObj [(js ''summary'', JStr (js ''n/a''))]) \<and>
   \<not> is_analysis_fields (JObj [(js ''summary'', JStr (js ''n/a''))]) \<and>
   fst (analyze_proposal_route
     (sample_env (js ''Proposal for services'') (replying (js ''{"summary": "n/a"}''))
        (Inr (JObj [(js ''summary'', JStr (js ''n/a''))])))
     (Some sample_pdf)) =
     \<lparr>status = 200,
      body = JObj
        [(js ''summary'', JStr (js ''n/a'')),
         (js ''metadata'', JObj
           [(js ''fileName'', JStr (js ''proposal.pdf'')),
            (js ''fileSize'', JNum 4),
            (js ''processedAt'', JStr (js ''2025-06-01T12:00:00.000Z'')),
            (js ''textLength'', JNum 21)])]\<rparr>\<close>
proof -
  have parse: \<open>JSON_parse (trim (js ''{"summary": "n/a"}'')) = Parsed (JObj [(js ''summary'', JStr (js ''n/a''))])\<close>
    by code_simp
  have shape: "\<not> is_analysis_fields (JObj [(js ''summary'', JStr (js ''n/a''))])"
    by (simp add: is_analysis_fields_def js_def)
  have keys: "js ''summary'' \<noteq> js ''metadata''"
    by (simp add: js_def)
  have \<open>fst (analyze_proposal_route
     (sample_env (js ''Proposal for services'') (replying (js ''{"summary": "n/a"}''))
        (Inr (JObj [(js ''summary'', JStr (js ''n/a''))])))
     (Some sample_pdf)) =
     \<lparr>status = 200,
      body = JObj
        [(js ''summary'', JStr (js ''n/a'')),
         (js ''metadata'', JObj
           [(js ''fileName'', JStr (js ''proposal.pdf'')),
            (js ''fileSize'', JNum 4),
            (js ''processedAt'', JStr (js ''2025-06-01T12:00:00.000Z'')),
            (js ''textLength'', JNum 21)])]\<rparr>\<close>
    by (simp add: sample_route [OF sample_texts(4)] sample_metadata with_metadata_def keys)
  with parse shape show ?thesis by blast
qed

section \<open>Properties of the upload component\<close>

lemmas client_defs = initial_def abort_def clearTimeout_def setTimeout_def show_toast_def
  current_signal_aborted_def resetAnalysis_def onDrop_def uploadDifferentFile_def runDemo_def
  demo_timeout_def analyzeProposal_def finally_block_def settle_def fallback_timeout_def
  fire_def due_timers_def advance_def

lemma mock_results_differ:
  "object_of (fallback_mockResult f d) \<noteq> object_of (demo_mockResult d')"
  by (simp add: object_of_def fallback_mockResult_def demo_mockResult_def)

subsection \<open>A second analysis while the fallback of the first is pending\<close>

text \<open>
  Claim C2 asks that an operation that has been superseded changes nothing that is
  shown. In the first run below a file is selected and an analysis started whose request
  fails after 50 ms, which schedules the fallback for 2050 ms and ends \<open>loading\<close>;
  at 1000 ms the analysis is started again (the button is enabled, \<open>loading\<close> being
  false). \<open>analyzeProposal\<close> aborts no controller, the ref being empty, and leaves
  the timer pending. At 2050 ms, with the second request still in flight, the callback
  of the first operation finds \<open>timeoutRef\<close> set and the current signal not aborted:
  it sets the fallback result and shows its toast. In the second run the second request
  fails as well, at 1050 ms: the callback of the first operation still shows its result
  at 2050 ms and empties \<open>timeoutRef\<close>, so that the callback of the second operation,
  at 3050 ms, returns without effect, and the result that stays is the one of the first
  operation.
\<close>

theorem reanalyze_shows_superseded_fallback:
  "requests (run toISOString reanalyze_trace initial) = [(3, proposal_file)] \<and>
   abortControllerRef (run toISOString reanalyze_trace initial) = Some 3 \<and>
   loading (run toISOString reanalyze_trace initial) \<and>
   result (run toISOString reanalyze_trace initial) =
     object_of (fallback_mockResult proposal_file (toISOString 2050)) \<and>
   last (toasts (run toISOString reanalyze_trace initial)) =
     Success (js ''Proposal analyzed successfully! (Demo mode)'') \<and>
   clock (run toISOString both_fail_trace initial) = 3550 \<and>
   timers (run toISOString both_fail_trace initial) = [] \<and>
   result (run toISOString both_fail_trace initial) =
     object_of (fallback_mockResult proposal_file (toISOString 2050))"
  by (simp add: reanalyze_trace_def both_fail_trace_def client_defs proposal_file_def)

subsection \<open>A demo started while a stale fallback timer is pending\<close>

text \<open>
  Claim C3 asks that \<open>runDemo\<close> ends with the canned demo result from every prior
  state. In the run below two analyses fail one after the other, so that the timer of
  the first is pending while \<open>timeoutRef\<close> holds the timer of the second; the demo
  is then started at 1200 ms. \<open>resetAnalysis\<close> clears the second timer only. At
  2050 ms the first timer fires, shows the fallback result and empties \<open>timeoutRef\<close>;
  at 4200 ms the callback of the demo finds \<open>timeoutRef\<close> empty and returns. Nothing
  is pending afterwards: \<open>loading\<close> stays true and the demo result is never shown.
\<close>

theorem stale_timer_blocks_demo:
  "timers (run toISOString stale_timer_trace initial) = [] \<and>
   requests (run toISOString stale_timer_trace initial) = [] \<and>
   clock (run toISOString stale_timer_trace initial) = 4200 \<and>
   loading (run toISOString stale_timer_trace initial) \<and>
   result (run toISOString stale_timer_trace initial) =
     object_of (fallback_mockResult proposal_file (toISOString 2050)) \<and>
   result (run toISOString stale_timer_trace initial) \<noteq>
     object_of (demo_mockResult (toISOString 4200)) \<and>
   Success (js ''Demo analysis complete! This is how real AI analysis works.'')
     \<notin> set (toasts (run toISOString stale_timer_trace initial))"
proof -
  have "run toISOString stale_timer_trace initial =
    \<lparr>selectedFile = Some demoFile, loading = True,
     result = object_of (fallback_mockResult proposal_file (toISOString 2050)), error = None,
     abortControllerRef = None, timeoutRef = None, aborted = [], timers = [], requests = [],
     toasts = [Success (js ''Analysis stopped and reset successfully''),
               Success (js ''Analysis stopped and reset successfully''),
               Success (js ''Proposal analyzed successfully! (Demo mode)'')],
     fresh = 6, clock = 4200\<rparr>"
    by (simp add: stale_timer_trace_def client_defs proposal_file_def)
  then show ?thesis
    by (simp add: mock_results_differ js_def)
qed

text \<open>
  What does hold of the demo: when the timer of \<open>runDemo\<close> is the next callback to
  run, it shows the demo result and ends \<open>loading\<close>, from every state; a
  \<open>resetAnalysis\<close> right after \<open>runDemo\<close> clears that timer; and from the initial
  state the demo completes after 3000 ms, or not at all when the file is cleared at
  500 ms.
\<close>

lemma runDemo_own_timer:
  "result (fire toISOString (fresh s, clock s + 3000, DemoTimeout) (runDemo s)) =
     object_of (demo_mockResult (toISOString (clock s + 3000))) \<and>
   \<not> loading (fire toISOString (fresh s, clock s + 3000, DemoTimeout) (runDemo s)) \<and>
   timeoutRef (fire toISOString (fresh s, clock s + 3000, DemoTimeout) (runDemo s)) = None \<and>
   (fresh s, clock s + 3000, DemoTimeout) \<in> set (timers (runDemo s))"
  by (simp add: client_defs Let_def split: option.splits)

lemma reset_cancels_demo:
  "(fresh s, clock s + 3000, DemoTimeout) \<notin> set (timers (resetAnalysis (runDemo s))) \<and>
   result (resetAnalysis (runDemo s)) = JNull \<and>
   \<not> loading (resetAnalysis (runDemo s)) \<and>
   error (resetAnalysis (runDemo s)) = None"
  by (simp add: client_defs Let_def split: option.splits)

lemma demo_run:
  "result (run toISOString [(0, RunDemo), (3000, Wait)] initial) =
     object_of (demo_mockResult (toISOString 3000)) \<and>
   \<not> loading (run toISOString [(0, RunDemo), (3000, Wait)] initial)"
  by (simp add: client_defs)

lemma demo_reset_run:
  "result (run toISOString [(0, RunDemo), (500, UploadDifferentFile), (3000, Wait)] initial) = JNull \<and>
   \<not> loading (run toISOString [(0, RunDemo), (500, UploadDifferentFile), (3000, Wait)] initial) \<and>
   timers (run toISOString [(0, RunDemo), (500, UploadDifferentFile), (3000, Wait)] initial) = []"
  by (simp add: client_defs)

subsection \<open>What triggers the fallback\<close>




subsection \<open>What resetAnalysis changes\<close>

text \<open>
  Claim C10 asks that in every state \<open>resetAnalysis\<close> clears the pending fallback
  timer along with the result, the error, the loading flag and the request handle. In
  the run below two analyses fail one after the other, at 50 ms and at 650 ms, so that
  two fallback timers are pending and \<open>timeoutRef\<close> holds the second; at 1200 ms
  \<open>resetAnalysis\<close> runs (Start Over is enabled, \<open>loading\<close> being false). It clears
  the timer \<open>timeoutRef\<close> holds and leaves the first pending. When the demo is
  started 100 ms later, that timer fires at 2050 ms and shows the fallback result, and
  the demo never completes.
\<close>

theorem reset_leaves_stale_fallback_timer:
  "timers (run toISOString (butlast reset_after_failures_trace) initial) =
     [(2, 2050, FallbackTimeout proposal_file), (4, 2650, FallbackTimeout proposal_file)] \<and>
   timeoutRef (run toISOString (butlast reset_after_failures_trace) initial) = Some 4 \<and>
   \<not> loading (run toISOString (butlast reset_after_failures_trace) initial) \<and>
   timers (run toISOString reset_after_failures_trace initial) =
     [(2, 2050, FallbackTimeout proposal_file)] \<and>
   timeoutRef (run toISOString reset_after_failures_trace initial) = None \<and>
   result (run toISOString reset_after_failures_trace initial) = JNull \<and>
   selectedFile (run toISOString reset_after_failures_trace initial) = Some proposal_file \<and>
   clock (run toISOString reset_then_demo_trace initial) = 4300 \<and>
   timers (run toISOString reset_then_demo_trace initial) = [] \<and>
   loading (run toISOString reset_then_demo_trace initial) \<and>
   result (run toISOString reset_then_demo_trace initial) =
     object_of (fallback_mockResult proposal_file (toISOString 2050))"
  by (simp add: reset_then_demo_trace_def reset_after_failures_trace_def client_defs proposal_file_def)

text \<open>
  What holds in every state: \<open>resetAnalysis\<close> empties the result, the error, the
  loading flag and both refs, clears the timer \<open>timeoutRef\<close> held and aborts the
  controller \<open>abortControllerRef\<close> held, and leaves the selected file as it is; the
  button \<open>Upload Different File\<close> is the action that also clears the file.
\<close>

theorem resetAnalysis_clears_and_keeps_file:
  "result (resetAnalysis s) = JNull \<and>
   error (resetAnalysis s) = None \<and>
   loading (resetAnalysis s) = False \<and>
   timeoutRef (resetAnalysis s) = None \<and>
   abortControllerRef (resetAnalysis s) = None \<and>
   (\<forall>t. timeoutRef s = Some t \<longrightarrow> t \<notin> fst ` set (timers (resetAnalysis s))) \<and>
   (\<forall>c. abortControllerRef s = Some c \<longrightarrow> c \<in> set (aborted (resetAnalysis s))) \<and>
   selectedFile (resetAnalysis s) = selectedFile s \<and>
   selectedFile (uploadDifferentFile s) = None"
  by (auto simp: client_defs Let_def split: option.splits)


theorem resetAnalysis_clears_and_keeps_file_witness:
  "timeoutRef (run decimal (take 4 reanalyze_trace) initial) = Some 2 \<and>
   abortControllerRef (run decimal (take 4 reanalyze_trace) initial) = Some 3 \<and>
   2 \<notin> fst ` set (timers (resetAnalysis (run decimal (take 4 reanalyze_trace) initial))) \<and>
   3 \<in> set (aborted (resetAnalysis (run decimal (take 4 reanalyze_trace) initial))) \<and>
   selectedFile (resetAnalysis (run decimal (take 4 reanalyze_trace) initial)) = Some proposal_file \<and>
   selectedFile (uploadDifferentFile (run decimal (take 4 reanalyze_trace) initial)) = None"
proof -
  have t: "timeoutRef (run decimal (take 4 reanalyze_trace) initial) = Some 2"
    and c: "abortControllerRef (run decimal (take 4 reanalyze_trace) initial) = Some 3"
    and f: "selectedFile (run decimal (take 4 reanalyze_trace) initial) = Some proposal_file"
    by (simp_all add: reanalyze_trace_def client_defs proposal_file_def)
  from resetAnalysis_clears_and_keeps_file [of "run decimal (take 4 reanalyze_trace) initial"] t c f
  show ?thesis by simp
qed


subsection \<open>Exporting a result as JSON\<close>

lemma distinct_keys_object_of: "distinct_keys (object_of r)"
  by (simp add: object_of_def js_def list_all_iff)

lemma not_falsy_object_of: "\<not> falsy (object_of r)"
  by (simp add: object_of_def)

lemma object_of_inject: "object_of r = object_of r' \<Longrightarrow> r = r'"
proof -
  have "inj JStr" by (simp add: inj_def)
  then have m: "map JStr xs = map JStr ys \<longleftrightarrow> xs = ys" for xs ys
    by (rule inj_map_eq_map)
  assume "object_of r = object_of r'"
  then show ?thesis
    by (cases r, cases r') (simp add: object_of_def m Pricing.equality Metadata.equality)
qed

text \<open>
  Claim C9: for every \<open>AnalysisResult\<close> the component holds as its result,
  \<open>exportResultsAsJSON\<close> downloads the text \<open>JSON.stringify(result, null, 2)\<close>, and
  \<open>JSON.parse\<close> of that text is the result again.
\<close>

theorem export_json_round_trip:
  "fst (exportResultsAsJSON (s\<lparr>result := object_of r\<rparr>)) =
     Downloaded (js ''analysis-'' @ replace_first (fileName (metadata r)) (js ''.pdf'') [] @ js ''.json'')
       (JSON_stringify (object_of r))
   \<and> JSON_parse (JSON_stringify (object_of r)) = Parsed (object_of r)"
proof -
  have "get_prop (object_of r) (js ''metadata'') = Some (JObj
         [(js ''fileName'', JStr (fileName (metadata r))),
          (js ''fileSize'', JNum (fileSize (metadata r))),
          (js ''processedAt'', JStr (processedAt (metadata r))),
          (js ''textLength'', JNum (textLength (metadata r)))])"
    by (simp add: object_of_def js_def)
  then have "fst (exportResultsAsJSON (s\<lparr>result := object_of r\<rparr>)) =
     Downloaded (js ''analysis-'' @ replace_first (fileName (metadata r)) (js ''.pdf'') [] @ js ''.json'')
       (JSON_stringify (object_of r))"
    by (simp add: exportResultsAsJSON_def not_falsy_object_of)
  with parse_stringify [OF distinct_keys_object_of] show ?thesis by simp
qed

end
